theory Spec2Isabelle
  imports Complex_Main
begin

section \<open>JSON values and objects\<close>

text \<open>
  A value produced by \<^verbatim>\<open>JSON.parse\<close>. An object is the list of its own properties in the
  order \<^verbatim>\<open>Object.entries\<close> enumerates them; the keys of an object are distinct. The
  value \<^verbatim>\<open>undefined\<close> is \<open>None\<close> of an option. Properties inherited through the
  prototype chain (\<^verbatim>\<open>toString\<close>, \<^verbatim>\<open>__proto__\<close>, ...) and the index and
  \<^verbatim>\<open>length\<close> properties of strings and arrays are not part of a value: a key is taken
  to name none of them. Keys that are canonical array indices, which JavaScript enumerates
  before all other keys, are given no special position.
\<close>

datatype json =
    JNull
  | JBool bool
  | JNum rat
  | JStr string
  | JArr "json list"
  | JObj "(string \<times> json) list"

type_synonym props = "(string \<times> json) list"

text \<open>The report of \<^verbatim>\<open>validateKeyAndPlaceholderParity\<close>: the entries of its
  \<^verbatim>\<open>errors\<close> array, by their \<^verbatim>\<open>type\<close> field. An item of a placeholder mismatch is
  \<^verbatim>\<open>{ key, missingPH, extraPH }\<close>.\<close>

datatype verror =
    MissingKeys "string list"
  | ExtraKeys "string list"
  | PlaceholderMismatch "(string \<times> string list \<times> string list) list"

text \<open>
  What the code throws. \<open>Error m\<close> is \<^verbatim>\<open>new Error(m)\<close>, which is also what a rejected
  call of a collaborator is taken to give; \<open>BatchTranslateFailed m\<close> is the error that
  \<^verbatim>\<open>waitForBatchCompletion\<close> renames; \<open>ValidationFailed module locale errors\<close> is the
  error whose message is
  \<^verbatim>\<open>Validation failed for ${moduleName}/${targetFolder}: ${JSON.stringify(errors)}\<close>;
  \<open>TypeError\<close> and \<open>ReferenceError x\<close> are raised by the language itself. \<open>Unrepresentable\<close> is not
  thrown by the code: it marks a step whose result is not a JSON value (a named property
  stored on an array).
\<close>

datatype error =
    TypeError
  | ReferenceError string
  | Error string
  | BatchTranslateFailed string
  | ValidationFailed string string "verror list"
  | Unrepresentable

text \<open>\<^verbatim>\<open>Object.prototype.hasOwnProperty.call(o, k)\<close>, \<^verbatim>\<open>o[k]\<close> and \<^verbatim>\<open>o[k] = v\<close> on the
  property list of an object. An assignment to an existing key keeps its position; a new
  key goes to the end.\<close>

definition has_prop :: "props \<Rightarrow> string \<Rightarrow> bool" where
  "has_prop ps k = (k \<in> set (map fst ps))"

definition get_prop :: "props \<Rightarrow> string \<Rightarrow> json option" where
  "get_prop ps k = map_of ps k"

primrec set_prop :: "string \<Rightarrow> json \<Rightarrow> props \<Rightarrow> props" where
  "set_prop k v [] = [(k, v)]"
| "set_prop k v (p # ps) = (if fst p = k then (k, v) # ps else p # set_prop k v ps)"

text \<open>Decimal rendering of an array index, for the keys of \<^verbatim>\<open>Object.entries\<close> of an array.\<close>

function show_nat :: "nat \<Rightarrow> string" where
  "show_nat n = (if n < 10 then [char_of (48 + n)] else show_nat (n div 10) @ [char_of (48 + n mod 10)])"
  by pat_completeness auto
termination
  by (relation "measure id") auto

definition array_entries :: "json list \<Rightarrow> props" where
  "array_entries xs = zip (map show_nat [0..<length xs]) xs"

section \<open>Format helpers\<close>

subsection \<open>flattenJson\<close>

text \<open>
  \<^verbatim>\<open>function flattenJson(obj, prefix = "", out = {})\<close>. The accumulator \<open>out\<close> is mutated
  in place by the source and passed on here. \<open>flatten_entries\<close> is the \<^verbatim>\<open>for\<close> loop over
  \<^verbatim>\<open>Object.entries(obj)\<close>. \<^verbatim>\<open>typeof obj === "object"\<close> holds of objects and arrays; an
  array passed at the top is walked by its indices, an array met as a value is a leaf.
\<close>

definition flat_key :: "string \<Rightarrow> string \<Rightarrow> string" where
  "flat_key prefix k = (if prefix \<noteq> [] then prefix @ ''.'' @ k else k)"

fun is_plain_object :: "json \<Rightarrow> bool" where
  "is_plain_object (JObj ps) = True"
| "is_plain_object v = False"

function flattenJson :: "json \<Rightarrow> string \<Rightarrow> props \<Rightarrow> props"
  and flatten_entries :: "props \<Rightarrow> string \<Rightarrow> props \<Rightarrow> props" where
  "flattenJson (JObj ps) prefix out = flatten_entries ps prefix out"
| "flattenJson (JArr xs) prefix out = flatten_entries (array_entries xs) prefix out"
| "flattenJson JNull prefix out = out"
| "flattenJson (JBool b) prefix out = out"
| "flattenJson (JNum n) prefix out = out"
| "flattenJson (JStr s) prefix out = out"
| "flatten_entries [] prefix out = out"
| "flatten_entries ((k, v) # rest) prefix out =
     (let key = flat_key prefix k
      in if is_plain_object v
         then flatten_entries rest prefix (flattenJson v key out)
         else flatten_entries rest prefix (set_prop key v out))"
  by pat_completeness auto
termination
proof (relation "measure (\<lambda>x. case x of
          Inl (j, p, out) \<Rightarrow> 2 * size j + 1
        | Inr (es, p, out) \<Rightarrow> 2 * size_list (\<lambda>e. size (snd e)) es)")
  show "wf (measure (\<lambda>x. case x of
          Inl (j, p, out) \<Rightarrow> 2 * size j + 1
        | Inr (es, p, out) \<Rightarrow> 2 * size_list (\<lambda>e. size (snd e)) es))"
    by simp
next
  fix ps :: props and prefix :: string and out :: props
  have "size_list (\<lambda>e. size (snd e)) ps \<le> size_list (size_prod (\<lambda>x. 0) size) ps"
    by (induction ps) auto
  then show "(Inr (ps, prefix, out), Inl (JObj ps, prefix, out)) \<in> measure (\<lambda>x. case x of
          Inl (j, p, out) \<Rightarrow> 2 * size j + 1
        | Inr (es, p, out) \<Rightarrow> 2 * size_list (\<lambda>e. size (snd e)) es)"
    by simp
next
  fix xs :: "json list" and prefix :: string and out :: props
  have "size_list (\<lambda>e. size (snd e)) (zip ks xs) \<le> size_list size xs" for ks :: "string list"
  proof (induction xs arbitrary: ks)
    case Nil
    show ?case by simp
  next
    case (Cons a xs)
    show ?case
    proof (cases ks)
      case Nil
      then show ?thesis by simp
    next
      case (Cons k ks')
      with Cons.IH [of ks'] show ?thesis by simp
    qed
  qed
  from this [of "map show_nat [0..<length xs]"]
  show "(Inr (array_entries xs, prefix, out), Inl (JArr xs, prefix, out)) \<in> measure (\<lambda>x. case x of
          Inl (j, p, out) \<Rightarrow> 2 * size j + 1
        | Inr (es, p, out) \<Rightarrow> 2 * size_list (\<lambda>e. size (snd e)) es)"
    unfolding array_entries_def
    by (simp add: le_imp_less_Suc)
qed auto


subsection \<open>unflattenJson\<close>

text \<open>\<^verbatim>\<open>k.split(".")\<close>: the segments between the dots; never the empty list.\<close>

fun split_dot :: "string \<Rightarrow> string list" where
  "split_dot [] = [[]]"
| "split_dot (c # cs) =
     (if c = CHR ''.'' then [] # split_dot cs
      else (c # hd (split_dot cs)) # tl (split_dot cs))"

text \<open>
  The inner loop of \<^verbatim>\<open>unflattenJson\<close>, from the segment at hand to the last one:
  \<open>walk parts v cur\<close> is the node \<open>cur\<close> after the loop has run below it. The source
  mutates the node and steps into \<^verbatim>\<open>cur[part]\<close>; here the child that the rest of the loop
  returns is stored back. The file is a CommonJS module without a strict-mode directive:
  an assignment to a property of a string, number or boolean is ignored, and reading the
  property gives \<^verbatim>\<open>undefined\<close>, on which the next round's
  \<^verbatim>\<open>hasOwnProperty.call\<close> throws, as it does on \<^verbatim>\<open>null\<close>.
\<close>

fun walk :: "string list \<Rightarrow> json \<Rightarrow> json \<Rightarrow> error + json" where
  "walk [] v cur = Inr cur"
| "walk (part # rest) v (JObj ps) =
     (let isLeaf = (rest = []);
          ps' = (if \<not> has_prop ps part then set_prop part (if isLeaf then v else JObj []) ps
                 else if isLeaf then set_prop part v ps
                 else ps)
      in case get_prop ps' part of
           None \<Rightarrow> (if isLeaf then Inr (JObj ps') else Inl TypeError)
         | Some child \<Rightarrow>
             (case walk rest v child of
                Inl e \<Rightarrow> Inl e
              | Inr child' \<Rightarrow> Inr (JObj (set_prop part child' ps'))))"
| "walk (part # rest) v JNull = Inl TypeError"
| "walk (part # rest) v (JArr xs) = Inl Unrepresentable"
| "walk (part # rest) v cur = (if rest = [] then Inr cur else Inl TypeError)"

text \<open>The outer loop over \<^verbatim>\<open>Object.entries(flat)\<close> (\<open>rt\<close> is the source's \<^verbatim>\<open>root\<close>), and the
  function itself.\<close>

fun unflatten_entries :: "props \<Rightarrow> json \<Rightarrow> error + json" where
  "unflatten_entries [] rt = Inr rt"
| "unflatten_entries ((k, v) # rest) rt =
     (case walk (split_dot k) v rt of
        Inl e \<Rightarrow> Inl e
      | Inr rt' \<Rightarrow> unflatten_entries rest rt')"

definition unflattenJson :: "props \<Rightarrow> error + json" where
  "unflattenJson flat = unflatten_entries flat (JObj [])"

subsection \<open>extractPlaceholders\<close>

text \<open>
  The matches of \<^verbatim>\<open>/\\{([^{}]+)\\}/g\<close> from left to right: an opening brace, the longest
  run of characters that are not braces, which must not be empty, and a closing brace.
  After a match the search goes on behind its closing brace, after a failure at the next
  character.
\<close>

definition not_brace :: "char \<Rightarrow> bool" where
  "not_brace c = (c \<noteq> CHR ''{'' \<and> c \<noteq> CHR ''}'')"

function placeholder_matches :: "string \<Rightarrow> string list" where
  "placeholder_matches [] = []"
| "placeholder_matches (c # cs) =
     (if c = CHR ''{'' \<and> takeWhile not_brace cs \<noteq> [] \<and> dropWhile not_brace cs \<noteq> []
         \<and> hd (dropWhile not_brace cs) = CHR ''}''
      then takeWhile not_brace cs # placeholder_matches (tl (dropWhile not_brace cs))
      else placeholder_matches cs)"
  by pat_completeness auto
termination
  by (relation "measure length") (auto simp: le_imp_less_Suc length_dropWhile_le less_Suc_eq_le
      intro: le_trans [OF diff_le_self])

text \<open>A \<^verbatim>\<open>Set\<close> of strings is the list of its members in insertion order.\<close>

definition set_add :: "string \<Rightarrow> string list \<Rightarrow> string list" where
  "set_add x s = (if x \<in> set s then s else s @ [x])"

fun extractPlaceholders :: "json option \<Rightarrow> string list" where
  "extractPlaceholders (Some (JStr str)) = foldl (\<lambda>s m. set_add m s) [] (placeholder_matches str)"
| "extractPlaceholders v = []"

subsection \<open>validateKeyAndPlaceholderParity\<close>

record validation =
  ok :: bool
  errors :: "verror list"

definition placeholder_diff :: "props \<Rightarrow> props \<Rightarrow> string \<Rightarrow> (string \<times> string list \<times> string list) list" where
  "placeholder_diff sourceFlat targetFlat key =
     (let srcPH = extractPlaceholders (get_prop sourceFlat key);
          tgtPH = extractPlaceholders (get_prop targetFlat key);
          missingPH = filter (\<lambda>p. p \<notin> set tgtPH) srcPH;
          extraPH = filter (\<lambda>p. p \<notin> set srcPH) tgtPH
      in if missingPH \<noteq> [] \<or> extraPH \<noteq> [] then [(key, missingPH, extraPH)] else [])"

definition validateKeyAndPlaceholderParity :: "props \<Rightarrow> props \<Rightarrow> validation" where
  "validateKeyAndPlaceholderParity sourceFlat targetFlat =
     (let missing = filter (\<lambda>key. \<not> has_prop targetFlat key) (map fst sourceFlat);
          extra = filter (\<lambda>key. \<not> has_prop sourceFlat key) (map fst targetFlat);
          placeholderDiffs = concat (map (placeholder_diff sourceFlat targetFlat) (map fst sourceFlat));
          errs = (if missing \<noteq> [] then [MissingKeys missing] else [])
               @ (if extra \<noteq> [] then [ExtraKeys extra] else [])
               @ (if placeholderDiffs \<noteq> [] then [PlaceholderMismatch placeholderDiffs] else [])
      in \<lparr> ok = (errs = []), errors = errs \<rparr>)"


section \<open>Effects\<close>

text \<open>
  Everything outside the process (the file system, the object store, the translation
  service, the random source) is a world of an arbitrary type \<open>'w\<close>. A collaborator is a
  function that takes its arguments and the world and gives its result, or the error it
  rejects with, and the next world. The collaborators are taken to be present: the checks
  \<^verbatim>\<open>typeof AwsS3.uploadFile === "function"\<close> and their like succeed. \<^verbatim>\<open>JSON.parse\<close>,
  \<^verbatim>\<open>path.join\<close> and the conversion of a number to a string are pure functions of the
  platform and are parameters too.
\<close>

record job_details =
  JobStatus :: string
  Message :: "string option"

record module =
  baseDir :: string
  moduleName :: string
  moduleDir :: string
  sourceFile :: string

record 'w env =
  fs_ensureDir :: "string \<Rightarrow> 'w \<Rightarrow> (error + unit) \<times> 'w"
  fs_scanI18nBaseDirs :: "string option \<Rightarrow> 'w \<Rightarrow> (error + string list) \<times> 'w"
  fs_scanModulesWithEnglish :: "string \<Rightarrow> 'w \<Rightarrow> (error + module list) \<times> 'w"
  fs_readJsonSafe :: "string \<Rightarrow> 'w \<Rightarrow> (error + json option) \<times> 'w"
  fs_writeJsonPretty :: "string \<Rightarrow> json \<Rightarrow> 'w \<Rightarrow> (error + unit) \<times> 'w"
  math_random_uid :: "'w \<Rightarrow> (error + string) \<times> 'w"
  s3_uploadFile :: "string \<Rightarrow> string \<Rightarrow> props \<Rightarrow> 'w \<Rightarrow> (error + unit) \<times> 'w"
  s3_listFiles :: "string \<Rightarrow> string \<Rightarrow> 'w \<Rightarrow> (error + string list) \<times> 'w"
  s3_getFile :: "string \<Rightarrow> string \<Rightarrow> 'w \<Rightarrow> (error + string) \<times> 'w"
  s3_deleteFile :: "string \<Rightarrow> string \<Rightarrow> 'w \<Rightarrow> (error + unit) \<times> 'w"
  s3_deleteFiles :: "string \<Rightarrow> string list \<Rightarrow> 'w \<Rightarrow> (error + unit) \<times> 'w"
  aws_startTextTranslationJob :: "string \<Rightarrow> string \<Rightarrow> string \<Rightarrow> 'w \<Rightarrow> (error + string) \<times> 'w"
  aws_describeTextTranslationJob :: "string \<Rightarrow> 'w \<Rightarrow> (error + job_details) \<times> 'w"
  aws_translateText :: "string \<Rightarrow> string \<Rightarrow> 'w \<Rightarrow> (error + string) \<times> 'w"
  json_parse :: "string \<Rightarrow> json option"
  number_to_string :: "rat \<Rightarrow> string"
  path_join :: "string list \<Rightarrow> string"

text \<open>
  What a run leaves behind, in order: the entries handed to \<^verbatim>\<open>Logger.writeLog\<close> (flag,
  action, message, criticality; the \<^verbatim>\<open>data\<close> payload is left out), with the progress
  entry of \<^verbatim>\<open>_progressTick\<close> kept as its three numbers, and the calls made to the
  collaborators. A message that embeds \<^verbatim>\<open>e.message\<close> is \<open>ErrMsg prefix e\<close>.
\<close>

datatype msg = Msg string | ErrMsg string error

datatype event =
    Log string string msg bool
  | Progress nat nat nat
  | EnsureDir string
  | ScanI18nBaseDirs "string option"
  | ScanModulesWithEnglish string
  | ReadJsonSafe string
  | WriteJsonPretty string json
  | MathRandom
  | UploadFile string string props
  | ListFiles string string
  | GetFile string string
  | DeleteFile string string
  | DeleteFiles string "string list"
  | StartTextTranslationJob string string string
  | DescribeTextTranslationJob string
  | TranslateText string string

text \<open>The state of a run: the world, the trace, and the two progress fields of the runner.\<close>

record 'w run_state =
  world :: 'w
  trace :: "event list"
  totalPairs :: nat
  completedPairs :: nat

text \<open>
  An \<^verbatim>\<open>async\<close> function: from a state it returns a value or throws, in a new state;
  \<open>None\<close> is a call that never settles.
\<close>

type_synonym ('w, 'a) prog = "'w run_state \<Rightarrow> ((error + 'a) \<times> 'w run_state) option"

definition pret :: "'a \<Rightarrow> ('w, 'a) prog" where
  "pret x s = Some (Inr x, s)"

definition pthrow :: "error \<Rightarrow> ('w, 'a) prog" where
  "pthrow e s = Some (Inl e, s)"

definition pbind :: "('w, 'a) prog \<Rightarrow> ('a \<Rightarrow> ('w, 'b) prog) \<Rightarrow> ('w, 'b) prog" where
  "pbind m k s =
     (case m s of
        None \<Rightarrow> None
      | Some (Inl e, s') \<Rightarrow> Some (Inl e, s')
      | Some (Inr x, s') \<Rightarrow> k x s')"

definition pcatch :: "('w, 'a) prog \<Rightarrow> (error \<Rightarrow> ('w, 'a) prog) \<Rightarrow> ('w, 'a) prog" where
  "pcatch m h s =
     (case m s of
        None \<Rightarrow> None
      | Some (Inl e, s') \<Rightarrow> h e s'
      | Some (Inr x, s') \<Rightarrow> Some (Inr x, s'))"

definition lift :: "error + 'a \<Rightarrow> ('w, 'a) prog" where
  "lift r = (case r of Inl e \<Rightarrow> pthrow e | Inr x \<Rightarrow> pret x)"

definition emit :: "event \<Rightarrow> ('w, unit) prog" where
  "emit ev s = Some (Inr (), s\<lparr>trace := trace s @ [ev]\<rparr>)"

definition call :: "event \<Rightarrow> ('w \<Rightarrow> (error + 'a) \<times> 'w) \<Rightarrow> ('w, 'a) prog" where
  "call ev f s =
     (case f (world s) of (r, w') \<Rightarrow> Some (r, s\<lparr>world := w', trace := trace s @ [ev]\<rparr>))"

section \<open>AwsTranslateAndS3\<close>

text \<open>Truthiness, \<^verbatim>\<open>x ?? ""\<close>, and \<^verbatim>\<open>String(x)\<close> on JSON values. \<^verbatim>\<open>String\<close> of an object
  looks the method \<^verbatim>\<open>toString\<close> up: an own property of that name, which in parsed JSON is
  never a function, leaves only \<^verbatim>\<open>valueOf\<close>, whose result is the object itself, and the
  conversion throws a TypeError; otherwise the inherited method gives
  \<^verbatim>\<open>[object Object]\<close>. An array is joined with commas, \<^verbatim>\<open>null\<close> elements as empty
  strings.\<close>

fun truthy :: "json option \<Rightarrow> bool" where
  "truthy None = False"
| "truthy (Some JNull) = False"
| "truthy (Some (JBool b)) = b"
| "truthy (Some (JNum n)) = (n \<noteq> 0)"
| "truthy (Some (JStr s)) = (s \<noteq> [])"
| "truthy (Some (JArr xs)) = True"
| "truthy (Some (JObj ps)) = True"

fun nullish_or_empty :: "json option \<Rightarrow> json" where
  "nullish_or_empty None = JStr []"
| "nullish_or_empty (Some JNull) = JStr []"
| "nullish_or_empty (Some v) = v"

fun js_String :: "(rat \<Rightarrow> string) \<Rightarrow> json \<Rightarrow> error + string"
  and js_join :: "(rat \<Rightarrow> string) \<Rightarrow> json list \<Rightarrow> error + string" where
  "js_String nts JNull = Inr ''null''"
| "js_String nts (JBool b) = Inr (if b then ''true'' else ''false'')"
| "js_String nts (JNum n) = Inr (nts n)"
| "js_String nts (JStr s) = Inr s"
| "js_String nts (JArr xs) = js_join nts xs"
| "js_String nts (JObj ps) =
     (if has_prop ps ''toString'' then Inl TypeError else Inr ''[object Object]'')"
| "js_join nts [] = Inr []"
| "js_join nts (x # xs) =
     (case (if x = JNull then Inr [] else js_String nts x) of
        Inl e \<Rightarrow> Inl e
      | Inr str \<Rightarrow>
          (if xs = [] then Inr str
           else case js_join nts xs of
                  Inl e \<Rightarrow> Inl e
                | Inr r \<Rightarrow> Inr (str @ '','' @ r)))"

text \<open>\<^verbatim>\<open>putJsonl\<close>: the body is the lines, one JSON record each; the call is recorded with the
  lines themselves.\<close>

definition putJsonl :: "'w env \<Rightarrow> string \<Rightarrow> string \<Rightarrow> props \<Rightarrow> ('w, string) prog" where
  "putJsonl sys bucket key lines =
     pbind (call (UploadFile bucket key lines) (s3_uploadFile sys bucket key lines))
       (\<lambda>_. pret (''s3://'' @ bucket @ ''/'' @ key))"

text \<open>\<^verbatim>\<open>startBatch\<close>; the job name, built from the clock, only goes into the request.\<close>

definition startBatch :: "'w env \<Rightarrow> string \<Rightarrow> string \<Rightarrow> string \<Rightarrow> ('w, string) prog" where
  "startBatch sys inputS3Uri outputS3Uri targetLang =
     call (StartTextTranslationJob inputS3Uri outputS3Uri targetLang)
       (aws_startTextTranslationJob sys inputS3Uri outputS3Uri targetLang)"

text \<open>
  \<^verbatim>\<open>waitForBatchCompletion\<close>. One round of the \<^verbatim>\<open>while (true)\<close> loop asks for the job and
  logs its status; \<open>poll\<close> is that part. The loop has no bound, so the function is partial:
  \<open>None\<close> is the call that polls for ever. The pause between two rounds changes nothing
  and is left out.
\<close>

definition poll :: "'w env \<Rightarrow> string \<Rightarrow> 'w run_state \<Rightarrow> (error + job_details) \<times> 'w run_state" where
  "poll sys jobId s =
     (case aws_describeTextTranslationJob sys jobId (world s) of
        (Inl e, w') \<Rightarrow>
          (Inl e, s\<lparr>world := w', trace := trace s @ [DescribeTextTranslationJob jobId]\<rparr>)
      | (Inr details, w') \<Rightarrow>
          (Inr details,
           s\<lparr>world := w',
             trace := trace s @ [DescribeTextTranslationJob jobId,
               Log ''tr_batch_wait'' ''poll_status'' (Msg (''Batch job status: '' @ JobStatus details)) False]\<rparr>))"

definition failure_reason :: "job_details \<Rightarrow> string" where
  "failure_reason details =
     (case Message details of None \<Rightarrow> ''unknown'' | Some m \<Rightarrow> if m = [] then ''unknown'' else m)"

partial_function (option) waitForBatchCompletion ::
  "'w env \<Rightarrow> string \<Rightarrow> 'w run_state \<Rightarrow> ((error + job_details) \<times> 'w run_state) option" where
  "waitForBatchCompletion sys jobId s =
     (case poll sys jobId s of
        (Inl e, s') \<Rightarrow> Some (Inl e, s')
      | (Inr details, s') \<Rightarrow>
          if JobStatus details = ''COMPLETED'' then Some (Inr details, s')
          else if JobStatus details = ''FAILED'' \<or> JobStatus details = ''STOPPED''
          then Some (Inl (BatchTranslateFailed
                 (''Batch translate job '' @ jobId @ '' '' @ JobStatus details @ '': ''
                    @ failure_reason details)), s')
          else waitForBatchCompletion sys jobId s')"

declare waitForBatchCompletion.simps [code]

text \<open>
  \<^verbatim>\<open>fetchBatchResults\<close>. The pattern \<^verbatim>\<open>/^s3:\/\/([^/]+)\/(.+)$/\<close> takes the bucket up to
  the first slash and the rest, which a dot does not match across a line end. The
  candidate is the first key that ends in \<^verbatim>\<open>.out\<close>, else the first key. The text is
  trimmed and cut at \<^verbatim>\<open>\n\<close> or \<^verbatim>\<open>\r\n\<close>; a line that does not parse becomes
  \<^verbatim>\<open>{ text: line }\<close>.
\<close>

definition parse_s3_uri :: "string \<Rightarrow> (string \<times> string) option" where
  "parse_s3_uri uri =
     (let r = drop 5 uri;
          b = takeWhile (\<lambda>c. c \<noteq> CHR ''/'') r;
          k = drop (Suc (length b)) r
      in if take 5 uri = ''s3://'' \<and> b \<noteq> [] \<and> length b < length r \<and> k \<noteq> []
            \<and> list_all (\<lambda>c. c \<noteq> CHR 0x0A \<and> c \<noteq> CHR 0x0D) k
         then Some (b, k) else None)"

definition strip_trailing_slashes :: "string \<Rightarrow> string" where
  "strip_trailing_slashes k = rev (dropWhile (\<lambda>c. c = CHR ''/'') (rev k))"

definition ends_with_out :: "string \<Rightarrow> bool" where
  "ends_with_out key = (4 \<le> length key \<and> drop (length key - 4) key = ''.out'')"

definition is_space :: "char \<Rightarrow> bool" where
  "is_space c = (c \<in> set [CHR 0x20, CHR 0x09, CHR 0x0A, CHR 0x0B, CHR 0x0C, CHR 0x0D])"

definition trim :: "string \<Rightarrow> string" where
  "trim t = rev (dropWhile is_space (rev (dropWhile is_space t)))"

fun split_lines :: "string \<Rightarrow> string list" where
  "split_lines [] = [[]]"
| "split_lines [c] = (if c = CHR 0x0A then [[], []] else [[c]])"
| "split_lines (c # d # cs) =
     (if c = CHR 0x0A then [] # split_lines (d # cs)
      else if c = CHR 0x0D \<and> d = CHR 0x0A then [] # split_lines cs
      else (c # hd (split_lines (d # cs))) # tl (split_lines (d # cs)))"

definition parse_line :: "'w env \<Rightarrow> string \<Rightarrow> json" where
  "parse_line sys line =
     (case json_parse sys line of Some j \<Rightarrow> j | None \<Rightarrow> JObj [(''text'', JStr line)])"

definition fetchBatchResults :: "'w env \<Rightarrow> string \<Rightarrow> ('w, json list) prog" where
  "fetchBatchResults sys outputS3Uri =
     (case parse_s3_uri outputS3Uri of
        None \<Rightarrow> pthrow (Error (''Invalid S3 URI: '' @ outputS3Uri))
      | Some (bucket, k) \<Rightarrow>
          (let prefix = strip_trailing_slashes k @ ''/''
           in pbind (call (ListFiles bucket prefix) (s3_listFiles sys bucket prefix)) (\<lambda>files.
                case (case find ends_with_out files of Some c \<Rightarrow> Some c
                      | None \<Rightarrow> (case files of [] \<Rightarrow> None | c # _ \<Rightarrow> Some c)) of
                  None \<Rightarrow> pthrow (Error (''No batch outputs under '' @ outputS3Uri))
                | Some cand \<Rightarrow>
                    pbind (call (GetFile bucket cand) (s3_getFile sys bucket cand)) (\<lambda>text.
                      pret (map (parse_line sys) (split_lines (trim text)))))))"

text \<open>\<^verbatim>\<open>translateText\<close>: the text sent is \<^verbatim>\<open>String(text ?? "")\<close>.\<close>

definition translateText :: "'w env \<Rightarrow> json \<Rightarrow> string \<Rightarrow> ('w, string) prog" where
  "translateText sys text targetLang =
     pbind (lift (js_String (number_to_string sys) (nullish_or_empty (Some text)))) (\<lambda>str.
       call (TranslateText str targetLang) (aws_translateText sys str targetLang))"


section \<open>TranslationRunner\<close>

text \<open>The fields the constructor sets from the environment and its options, and the
  entries of \<^verbatim>\<open>LOCALES\<close>. \<open>simulate\<close> is \<^verbatim>\<open>SIMULATE_I18N === "1"\<close>.\<close>

record target_locale =
  folderCode :: string
  awsCode :: string

record config =
  i18nBasePref :: "string option"
  outputRoot :: string
  bucket :: string
  inPrefix :: string
  outPrefix :: string
  roleArn :: "string option"
  forceSync :: bool
  tsFolder :: string
  source :: target_locale
  targets :: "target_locale list"
  simulate :: bool

definition rlog :: "string \<Rightarrow> string \<Rightarrow> msg \<Rightarrow> bool \<Rightarrow> ('w, unit) prog" where
  "rlog flag action message critical = emit (Log flag action message critical)"

text \<open>\<^verbatim>\<open>_step\<close>: the start entry, the awaited function, the end entry. When the function
  throws, the end entry is not written.\<close>

definition step :: "string \<Rightarrow> string \<Rightarrow> string \<Rightarrow> msg \<Rightarrow> msg \<Rightarrow> ('w, 'a) prog \<Rightarrow> ('w, 'a) prog" where
  "step startFlag endFlag action messageStart messageEnd fn =
     pbind (rlog startFlag action messageStart False) (\<lambda>_.
     pbind fn (\<lambda>result.
     pbind (rlog endFlag action messageEnd False) (\<lambda>_.
     pret result)))"

text \<open>\<^verbatim>\<open>_progressTick\<close>. \<^verbatim>\<open>Math.round\<close> rounds a half up; the percentage is taken in exact
  arithmetic.\<close>

definition percent_of :: "nat \<Rightarrow> nat \<Rightarrow> nat" where
  "percent_of completed tot =
     (if tot > 0 then (200 * completed + tot) div (2 * tot) else 0)"

definition progressTick :: "('w, unit) prog" where
  "progressTick s =
     emit (Progress (completedPairs s) (totalPairs s) (percent_of (completedPairs s) (totalPairs s))) s"

definition ensureJobDir :: "'w env \<Rightarrow> config \<Rightarrow> ('w, string) prog" where
  "ensureJobDir sys cfg =
     (let job = path_join sys [outputRoot cfg, tsFolder cfg]
      in pbind (step ''tr_job_dir_start'' ''tr_job_dir_end'' ''mkdir''
                  (Msg (''Ensuring job dir: '' @ job)) (Msg ''Job dir ready'')
                  (call (EnsureDir job) (fs_ensureDir sys job))) (\<lambda>_.
         pret job))"

definition demo :: json where
  "demo = JObj
     [(''auth'', JObj [(''login'', JObj [(''title'', JStr ''Login to Your Account''), (''button'', JStr ''Login'')])]),
      (''dashboard'', JObj [(''page'', JObj [(''title'', JStr ''Dashboard'')]),
                            (''messages'', JObj [(''welcome'', JStr ''Welcome, {0}!'')])]),
      (''profile'', JObj [(''header'', JObj [(''title'', JStr ''Profile'')]),
                          (''action'', JObj [(''save'', JStr ''Save changes'')])])]"

definition simulateI18nIfRequested :: "'w env \<Rightarrow> config \<Rightarrow> string \<Rightarrow> ('w, unit) prog" where
  "simulateI18nIfRequested sys cfg base =
     (if \<not> simulate cfg then pret ()
      else (let dash = path_join sys [base, ''dashboard''];
                profile = path_join sys [base, ''profile'']
            in pbind (call (EnsureDir dash) (fs_ensureDir sys dash)) (\<lambda>_.
               pbind (call (EnsureDir profile) (fs_ensureDir sys profile)) (\<lambda>_.
               pbind (call (WriteJsonPretty (path_join sys [dash, ''en.json'']) demo)
                        (fs_writeJsonPretty sys (path_join sys [dash, ''en.json'']) demo)) (\<lambda>_.
               call (WriteJsonPretty (path_join sys [profile, ''en.json'']) demo)
                 (fs_writeJsonPretty sys (path_join sys [profile, ''en.json'']) demo))))))"

fun scan_bases :: "'w env \<Rightarrow> config \<Rightarrow> string list \<Rightarrow> module list \<Rightarrow> ('w, module list) prog" where
  "scan_bases sys cfg [] found = pret found"
| "scan_bases sys cfg (base # rest) found =
     pbind (simulateI18nIfRequested sys cfg base) (\<lambda>_.
     pbind (call (ScanModulesWithEnglish base) (fs_scanModulesWithEnglish sys base)) (\<lambda>mods.
     scan_bases sys cfg rest (found @ map (\<lambda>m. m\<lparr>baseDir := base\<rparr>) mods)))"

definition scanAllModules :: "'w env \<Rightarrow> config \<Rightarrow> ('w, module list) prog" where
  "scanAllModules sys cfg =
     pbind (rlog ''tr_scan_start'' ''scan'' (Msg ''Scanning base dirs'') False) (\<lambda>_.
     pbind (call (ScanI18nBaseDirs (i18nBasePref cfg)) (fs_scanI18nBaseDirs sys (i18nBasePref cfg))) (\<lambda>baseDirs.
     if baseDirs = [] then pthrow (Error ''No i18n/18n base directory found'')
     else
     pbind (scan_bases sys cfg baseDirs []) (\<lambda>found.
     pbind (rlog ''tr_scan_found'' ''scan''
              (Msg (''Found '' @ show_nat (length found) @ '' module(s) with en.json'')) False) (\<lambda>_.
     pbind (rlog ''tr_scan_end'' ''scan'' (Msg ''Scanning completed'') False) (\<lambda>_.
     pret found)))))"

fun join_with :: "string \<Rightarrow> string list \<Rightarrow> string" where
  "join_with sep [] = []"
| "join_with sep [x] = x"
| "join_with sep (x # y # xs) = x @ sep @ join_with sep (y # xs)"

definition s3InputKey :: "'w env \<Rightarrow> config \<Rightarrow> string \<Rightarrow> string \<Rightarrow> ('w, string) prog" where
  "s3InputKey sys cfg module_name localeCode =
     pbind (call MathRandom (math_random_uid sys)) (\<lambda>uid.
     pret (join_with ''/'' (filter (\<lambda>x. x \<noteq> [])
             [inPrefix cfg, tsFolder cfg, module_name, localeCode, uid @ ''.jsonl''])))"

definition s3OutputPrefix :: "config \<Rightarrow> string \<Rightarrow> string \<Rightarrow> string" where
  "s3OutputPrefix cfg module_name localeCode =
     join_with ''/'' (filter (\<lambda>x. x \<noteq> []) [outPrefix cfg, tsFolder cfg, module_name, localeCode]) @ ''/''"

definition s3OutputUri :: "config \<Rightarrow> string \<Rightarrow> string \<Rightarrow> string" where
  "s3OutputUri cfg module_name localeCode =
     ''s3://'' @ bucket cfg @ ''/'' @ s3OutputPrefix cfg module_name localeCode"

definition localOut :: "'w env \<Rightarrow> string \<Rightarrow> string \<Rightarrow> string \<Rightarrow> string" where
  "localOut sys jobDir module_name localeCode = path_join sys [jobDir, module_name, localeCode @ ''.json'']"

text \<open>\<^verbatim>\<open>buildPayload\<close>. \<^verbatim>\<open>readJsonSafe\<close> gives \<^verbatim>\<open>null\<close> for a missing or unparsable file;
  \<^verbatim>\<open>!json\<close> also rejects the other falsy values. The lines are the entries of the flat map
  as \<^verbatim>\<open>{ key, text }\<close>.\<close>

definition buildPayload :: "'w env \<Rightarrow> string \<Rightarrow> ('w, props \<times> props) prog" where
  "buildPayload sys enFile =
     step ''tr_payload_build_start'' ''tr_payload_build_end'' ''flatten''
       (Msg (''Flattening '' @ enFile @ '' -> JSONL'')) (Msg ''Payload built'')
       (pbind (call (ReadJsonSafe enFile) (fs_readJsonSafe sys enFile)) (\<lambda>json.
          case json of
            None \<Rightarrow> pthrow (Error (''Cannot read or parse '' @ enFile))
          | Some j \<Rightarrow>
              if \<not> truthy (Some j) then pthrow (Error (''Cannot read or parse '' @ enFile))
              else (let flat = flattenJson j [] [];
                        lines = flat
                    in pret (flat, lines))))"

text \<open>
  The association of the fetched results with the source keys by position:
  \<^verbatim>\<open>fetched[i]\<close>, its \<^verbatim>\<open>text\<close> property, the value chosen, and the string stored. The
  loop fills \<^verbatim>\<open>translatedFlat\<close> key by key; when \<^verbatim>\<open>String\<close> throws, the keys stored so
  far stay in it.
\<close>

definition nth_opt :: "json list \<Rightarrow> nat \<Rightarrow> json option" where
  "nth_opt xs i = (if i < length xs then Some (xs ! i) else None)"

fun text_field :: "json option \<Rightarrow> json option" where
  "text_field (Some (JObj ps)) = get_prop ps ''text''"
| "text_field v = None"

fun is_string :: "json option \<Rightarrow> bool" where
  "is_string (Some (JStr s)) = True"
| "is_string v = False"

definition batch_value :: "json option \<Rightarrow> json option" where
  "batch_value fi = (if truthy fi \<and> is_string (text_field fi) then text_field fi else fi)"

definition stored_string :: "(rat \<Rightarrow> string) \<Rightarrow> json option \<Rightarrow> error + string" where
  "stored_string nts val =
     (case val of
        Some (JStr str) \<Rightarrow> Inr str
      | _ \<Rightarrow> js_String nts (nullish_or_empty val))"

fun associate :: "(rat \<Rightarrow> string) \<Rightarrow> props \<Rightarrow> json list \<Rightarrow> nat \<Rightarrow> props \<Rightarrow> props \<times> error option" where
  "associate nts [] fetched i translatedFlat = (translatedFlat, None)"
| "associate nts ((key, text) # rest) fetched i translatedFlat =
     (case stored_string nts (batch_value (nth_opt fetched i)) of
        Inl e \<Rightarrow> (translatedFlat, Some e)
      | Inr str \<Rightarrow> associate nts rest fetched (Suc i) (set_prop key (JStr str) translatedFlat))"

text \<open>
  The \<^verbatim>\<open>try\<close> block of the batch path. Its first statement is
  \<^verbatim>\<open>const { jobId, jobName } = await this._step({ ..., data: { ..., jobName, ... }, fn })\<close>:
  the argument of \<^verbatim>\<open>_step\<close> reads \<^verbatim>\<open>jobName\<close>, the binding that this very declaration
  introduces and that is uninitialised until the declaration has been evaluated, so
  building the argument throws a ReferenceError before \<^verbatim>\<open>_step\<close> is called.
  \<open>batch_body\<close> gives the value of \<^verbatim>\<open>translatedFlat\<close> when the block is left, and the error
  if it is left by a throw; \<open>try_batch\<close> adds the \<^verbatim>\<open>catch\<close> clause.
\<close>

definition batch_body ::
  "'w env \<Rightarrow> string \<Rightarrow> props \<Rightarrow> string \<Rightarrow> string \<Rightarrow> ('w, props option \<times> error option) prog" where
  "batch_body sys targetAws lines inputUri outputUri =
     pcatch
       (pbind (pthrow (ReferenceError ''jobName'')) (\<lambda>_ :: unit.
        pbind (step ''tr_batch_start'' ''tr_batch_start'' ''batch_start''
                 (Msg ''Starting batch translation'') (Msg ''Batch started'')
                 (startBatch sys inputUri outputUri targetAws)) (\<lambda>jobId.
        pbind (step ''tr_batch_wait'' ''tr_batch_wait'' ''batch_wait''
                 (Msg (''Waiting for job '' @ jobId)) (Msg ''Polling...'')
                 (waitForBatchCompletion sys jobId)) (\<lambda>_.
        pbind (step ''tr_batch_fetch'' ''tr_batch_end'' ''batch_fetch''
                 (Msg ''Fetching batch results'') (Msg ''Batch results fetched'')
                 (fetchBatchResults sys outputUri)) (\<lambda>fetched.
        case associate (number_to_string sys) lines fetched 0 [] of
          (translatedFlat, err) \<Rightarrow> pret (Some translatedFlat, err))))))
       (\<lambda>e. pret (None, Some e))"

definition try_batch ::
  "'w env \<Rightarrow> string \<Rightarrow> props \<Rightarrow> string \<Rightarrow> string \<Rightarrow> ('w, props option) prog" where
  "try_batch sys targetAws lines inputUri outputUri =
     pbind (batch_body sys targetAws lines inputUri outputUri) (\<lambda>(translatedFlat, err).
       case err of
         None \<Rightarrow> pret translatedFlat
       | Some e \<Rightarrow>
           pbind (rlog ''tr_error'' ''batch_fail''
                    (ErrMsg ''Batch failed; falling back to per-string. '' e) True) (\<lambda>_.
           pret translatedFlat))"

text \<open>The per-string fallback: one \<^verbatim>\<open>translateText\<close> call for each line, in the order of
  the lines, then the flat map built from the results.\<close>

fun translate_lines ::
  "'w env \<Rightarrow> string \<Rightarrow> props \<Rightarrow> (string \<times> string) list \<Rightarrow> ('w, (string \<times> string) list) prog" where
  "translate_lines sys targetAws [] ret = pret ret"
| "translate_lines sys targetAws ((key, text) # rest) ret =
     pbind (translateText sys text targetAws) (\<lambda>t.
     translate_lines sys targetAws rest (ret @ [(key, t)]))"

definition from_results :: "(string \<times> string) list \<Rightarrow> props" where
  "from_results out = foldl (\<lambda>translatedFlat r. set_prop (fst r) (JStr (snd r)) translatedFlat) [] out"

definition fallback :: "'w env \<Rightarrow> string \<Rightarrow> props \<Rightarrow> ('w, props) prog" where
  "fallback sys targetAws lines =
     pbind (step ''tr_sync_start'' ''tr_sync_end'' ''sync_translate''
              (Msg ''Translating per-string'') (Msg ''Per-string complete'')
              (translate_lines sys targetAws lines [])) (\<lambda>out.
     pret (from_results out))"

text \<open>
  \<^verbatim>\<open>translateModuleLocale\<close>, in two halves. \<open>obtain_translation\<close> runs from the payload to
  the translated flat map: the upload comes first and outside the \<^verbatim>\<open>try\<close> block, the
  batch path is tried when \<^verbatim>\<open>!this.forceSync && this.roleArn\<close>, and the fallback runs when
  \<^verbatim>\<open>translatedFlat\<close> is still \<^verbatim>\<open>null\<close>. \<open>deliver\<close> converts, validates, writes the
  local file and cleans up.
\<close>

definition role_configured :: "config \<Rightarrow> bool" where
  "role_configured cfg = (case roleArn cfg of None \<Rightarrow> False | Some r \<Rightarrow> r \<noteq> [])"

definition obtain_translation ::
  "'w env \<Rightarrow> config \<Rightarrow> string \<Rightarrow> string \<Rightarrow> target_locale \<Rightarrow> ('w, props \<times> props \<times> string \<times> string) prog" where
  "obtain_translation sys cfg module_name enFile target =
     (let targetFolder = folderCode target;
          targetAws = awsCode target
      in pbind (buildPayload sys enFile) (\<lambda>(flatSource, lines).
         pbind (s3InputKey sys cfg module_name targetFolder) (\<lambda>inputKey.
         pbind (step ''tr_s3_upload_start'' ''tr_s3_upload_end'' ''s3_put''
                  (Msg (''Uploading input JSONL to s3://'' @ bucket cfg @ ''/'' @ inputKey))
                  (Msg ''Input uploaded'')
                  (putJsonl sys (bucket cfg) inputKey lines)) (\<lambda>inputUri.
         (let outputUri = s3OutputUri cfg module_name targetFolder;
              outputPrefix = s3OutputPrefix cfg module_name targetFolder
          in pbind (if \<not> forceSync cfg \<and> role_configured cfg
                    then try_batch sys targetAws lines inputUri outputUri
                    else pret None) (\<lambda>attempt.
             pbind (case attempt of
                      Some translatedFlat \<Rightarrow> pret translatedFlat
                    | None \<Rightarrow> fallback sys targetAws lines) (\<lambda>translatedFlat.
             pret (flatSource, translatedFlat, inputKey, outputPrefix))))))))"

definition cleanup :: "'w env \<Rightarrow> config \<Rightarrow> string \<Rightarrow> string \<Rightarrow> ('w, unit) prog" where
  "cleanup sys cfg inputKey outputPrefix =
     pbind (call (DeleteFile (bucket cfg) inputKey) (s3_deleteFile sys (bucket cfg) inputKey)) (\<lambda>_.
     pbind (call (ListFiles (bucket cfg) outputPrefix) (s3_listFiles sys (bucket cfg) outputPrefix)) (\<lambda>files.
     if files \<noteq> []
     then call (DeleteFiles (bucket cfg) files) (s3_deleteFiles sys (bucket cfg) files)
     else pret ()))"

definition deliver ::
  "'w env \<Rightarrow> config \<Rightarrow> string \<Rightarrow> string \<Rightarrow> target_locale \<Rightarrow> props \<Rightarrow> props \<Rightarrow> string \<Rightarrow> string \<Rightarrow> ('w, string) prog" where
  "deliver sys cfg module_name jobDir target flatSource translatedFlat inputKey outputPrefix =
     (let targetFolder = folderCode target
      in pbind (step ''tr_convert_start'' ''tr_convert_end'' ''unflatten''
                  (Msg ''Converting flat -> nested'') (Msg ''Converted nested'')
                  (lift (unflattenJson translatedFlat))) (\<lambda>nested.
         (let v = validateKeyAndPlaceholderParity flatSource translatedFlat
          in pbind (step ''tr_validate_start'' (if ok v then ''tr_validate_pass'' else ''tr_validate_fail'')
                      ''validate'' (Msg ''Validating'')
                      (Msg (if ok v then ''Validation passed'' else ''Validation failed''))
                      (pret ())) (\<lambda>_.
             if \<not> ok v
             then pbind (rlog ''tr_error'' ''validate_fail''
                           (ErrMsg [] (ValidationFailed module_name targetFolder (errors v))) True) (\<lambda>_.
                  pthrow (ValidationFailed module_name targetFolder (errors v)))
             else
             (let outPath = localOut sys jobDir module_name targetFolder
              in pbind (step ''tr_write_start'' ''tr_write_end'' ''write_file''
                          (Msg (''Writing '' @ outPath)) (Msg ''File written'')
                          (call (WriteJsonPretty outPath nested) (fs_writeJsonPretty sys outPath nested))) (\<lambda>_.
                 pbind (step ''tr_cleanup_start'' ''tr_cleanup_end'' ''s3_cleanup''
                          (Msg ''Cleaning up S3 input & output'') (Msg ''S3 cleanup complete'')
                          (cleanup sys cfg inputKey outputPrefix)) (\<lambda>_.
                 pret outPath)))))))"

definition translateModuleLocale ::
  "'w env \<Rightarrow> config \<Rightarrow> string \<Rightarrow> string \<Rightarrow> string \<Rightarrow> target_locale \<Rightarrow> ('w, string) prog" where
  "translateModuleLocale sys cfg module_name enFile jobDir target =
     pbind (obtain_translation sys cfg module_name enFile target)
       (\<lambda>(flatSource, translatedFlat, inputKey, outputPrefix).
          deliver sys cfg module_name jobDir target flatSource translatedFlat inputKey outputPrefix)"

text \<open>
  \<^verbatim>\<open>generateBulkTranslations\<close>. \<open>process_pair\<close> is the body of the inner loop: the
  \<^verbatim>\<open>try\<close> with its \<^verbatim>\<open>catch\<close> and \<^verbatim>\<open>finally\<close> clauses.
\<close>

definition pfinally :: "('w, 'a) prog \<Rightarrow> ('w, unit) prog \<Rightarrow> ('w, 'a) prog" where
  "pfinally m f s =
     (case m s of
        None \<Rightarrow> None
      | Some (r, s') \<Rightarrow>
          (case f s' of
             None \<Rightarrow> None
           | Some (Inl e, s'') \<Rightarrow> Some (Inl e, s'')
           | Some (Inr u, s'') \<Rightarrow> Some (r, s'')))"

definition pair_name :: "module \<Rightarrow> target_locale \<Rightarrow> string" where
  "pair_name m target = moduleName m @ ''/'' @ folderCode target"

definition process_pair :: "'w env \<Rightarrow> config \<Rightarrow> string \<Rightarrow> module \<Rightarrow> target_locale \<Rightarrow> ('w, unit) prog" where
  "process_pair sys cfg jobDir m target =
     pbind (rlog ''tr_runner_start'' ''module_locale_begin'' (Msg (''Begin '' @ pair_name m target)) False) (\<lambda>_.
     pfinally
       (pcatch
          (pbind (translateModuleLocale sys cfg (moduleName m) (sourceFile m) jobDir target) (\<lambda>saved.
           rlog ''tr_runner_end'' ''module_locale_end'' (Msg (''Completed '' @ pair_name m target)) False))
          (\<lambda>e. rlog ''tr_error'' ''module_locale_error'' (ErrMsg [] e) True))
       (pbind (\<lambda>s. Some (Inr (), s\<lparr>completedPairs := completedPairs s + 1\<rparr>)) (\<lambda>_.
        progressTick)))"

fun for_targets :: "'w env \<Rightarrow> config \<Rightarrow> string \<Rightarrow> module \<Rightarrow> target_locale list \<Rightarrow> ('w, unit) prog" where
  "for_targets sys cfg jobDir m [] = pret ()"
| "for_targets sys cfg jobDir m (target # rest) =
     pbind (process_pair sys cfg jobDir m target) (\<lambda>_. for_targets sys cfg jobDir m rest)"

fun for_modules :: "'w env \<Rightarrow> config \<Rightarrow> string \<Rightarrow> module list \<Rightarrow> ('w, unit) prog" where
  "for_modules sys cfg jobDir [] = pret ()"
| "for_modules sys cfg jobDir (m # rest) =
     pbind (for_targets sys cfg jobDir m (targets cfg)) (\<lambda>_. for_modules sys cfg jobDir rest)"

definition generateBulkTranslations :: "'w env \<Rightarrow> config \<Rightarrow> ('w, string) prog" where
  "generateBulkTranslations sys cfg =
     pbind (ensureJobDir sys cfg) (\<lambda>jobDir.
     pbind (scanAllModules sys cfg) (\<lambda>modules.
     pbind (\<lambda>s. Some (Inr (), s\<lparr>totalPairs := length modules * length (targets cfg), completedPairs := 0\<rparr>)) (\<lambda>_.
     pbind progressTick (\<lambda>_.
     pbind (rlog ''tr_runner_start'' ''announce''
              (Msg ''Runner will process (module/en) -> all target locales'') False) (\<lambda>_.
     pbind (for_modules sys cfg jobDir modules) (\<lambda>_.
     pbind (rlog ''tr_runner_end'' ''done'' (Msg ''All modules & locales processed'') False) (\<lambda>_.
     pret jobDir)))))))"


section \<open>Notions used in the statements\<close>

text \<open>The three groups of a validation report, read back from its \<^verbatim>\<open>errors\<close> array, and the
  placeholder names that the target value of a key lacks or adds.\<close>

definition reported_missing :: "validation \<Rightarrow> string list" where
  "reported_missing r = concat (map (\<lambda>e. case e of MissingKeys ks \<Rightarrow> ks | _ \<Rightarrow> []) (errors r))"

definition reported_extra :: "validation \<Rightarrow> string list" where
  "reported_extra r = concat (map (\<lambda>e. case e of ExtraKeys ks \<Rightarrow> ks | _ \<Rightarrow> []) (errors r))"

definition reported_items :: "validation \<Rightarrow> (string \<times> string list \<times> string list) list" where
  "reported_items r = concat (map (\<lambda>e. case e of PlaceholderMismatch items \<Rightarrow> items | _ \<Rightarrow> []) (errors r))"

definition missingPH_of :: "props \<Rightarrow> props \<Rightarrow> string \<Rightarrow> string list" where
  "missingPH_of sourceFlat targetFlat key =
     filter (\<lambda>p. p \<notin> set (extractPlaceholders (get_prop targetFlat key)))
       (extractPlaceholders (get_prop sourceFlat key))"

definition extraPH_of :: "props \<Rightarrow> props \<Rightarrow> string \<Rightarrow> string list" where
  "extraPH_of sourceFlat targetFlat key =
     filter (\<lambda>p. p \<notin> set (extractPlaceholders (get_prop sourceFlat key)))
       (extractPlaceholders (get_prop targetFlat key))"








definition key_of :: "string \<Rightarrow> string list \<Rightarrow> string" where
  "key_of prefix path = foldl flat_key prefix path"

definition keyed :: "string \<Rightarrow> (string list \<times> json) list \<Rightarrow> props" where
  "keyed prefix L = map (\<lambda>e. (key_of prefix (fst e), snd e)) L"





text \<open>A world for the examples: every collaborator succeeds, the source bundle of every
  module is \<^verbatim>\<open>{"login": {"title": "Hi {x}"}}\<close>, and a text is translated to itself.
  \<open>scripted_env\<close> answers the polls of a job from a list of job details.\<close>

definition stub_env :: "'w env" where
  "stub_env = \<lparr>
     fs_ensureDir = (\<lambda>p w. (Inr (), w)),
     fs_scanI18nBaseDirs = (\<lambda>hint w. (Inr [''i18n''], w)),
     fs_scanModulesWithEnglish = (\<lambda>base w.
        (Inr [\<lparr>baseDir = base, moduleName = ''auth'', moduleDir = base @ ''/auth'',
                sourceFile = base @ ''/auth/en.json''\<rparr>], w)),
     fs_readJsonSafe = (\<lambda>file w. (Inr (Some (JObj [(''login'', JObj [(''title'', JStr ''Hi {x}'')])])), w)),
     fs_writeJsonPretty = (\<lambda>file data w. (Inr (), w)),
     math_random_uid = (\<lambda>w. (Inr ''u1'', w)),
     s3_uploadFile = (\<lambda>b key lines w. (Inr (), w)),
     s3_listFiles = (\<lambda>b prefix w. (Inr [], w)),
     s3_getFile = (\<lambda>b key w. (Inr [], w)),
     s3_deleteFile = (\<lambda>b key w. (Inr (), w)),
     s3_deleteFiles = (\<lambda>b keys w. (Inr (), w)),
     aws_startTextTranslationJob = (\<lambda>i out target w. (Inr ''job-1'', w)),
     aws_describeTextTranslationJob = (\<lambda>jobId w. (Inl (Error ''no such job''), w)),
     aws_translateText = (\<lambda>str target w. (Inr str, w)),
     json_parse = (\<lambda>line. None),
     number_to_string = (\<lambda>n. ''0''),
     path_join = join_with ''/'' \<rparr>"


definition start_state :: "'w \<Rightarrow> 'w run_state" where
  "start_state w = \<lparr>world = w, trace = [], totalPairs = 0, completedPairs = 0\<rparr>"

text \<open>The entries that \<^verbatim>\<open>generateBulkTranslations\<close> itself writes for a pair, and the
  programs that return, leave the progress fields alone and write none of these entries.\<close>

fun runner_event :: "event \<Rightarrow> bool" where
  "runner_event (Progress c t p) = True"
| "runner_event (Log flag action message critical) =
     (action = ''module_locale_begin'' \<or> action = ''module_locale_end'' \<or> action = ''module_locale_error'')"
| "runner_event ev = False"

definition proper :: "('w, 'a) prog \<Rightarrow> bool" where
  "proper m = (\<forall>s. \<exists>r w evs. m s = Some (r, s\<lparr>world := w, trace := trace s @ evs\<rparr>)
                  \<and> list_all (\<lambda>ev. \<not> runner_event ev) evs)"

text \<open>The first and the last entry of a pair, the milestones of a trace (the begin entries
  and the progress entries), and the milestones that a list of pairs leaves when the
  completed counter starts at \<open>c\<close>.\<close>

definition begin_log :: "module \<Rightarrow> target_locale \<Rightarrow> event" where
  "begin_log m target =
     Log ''tr_runner_start'' ''module_locale_begin'' (Msg (''Begin '' @ pair_name m target)) False"

fun outcome_log :: "module \<Rightarrow> target_locale \<Rightarrow> error + string \<Rightarrow> event" where
  "outcome_log m target (Inr saved) =
     Log ''tr_runner_end'' ''module_locale_end'' (Msg (''Completed '' @ pair_name m target)) False"
| "outcome_log m target (Inl e) =
     Log ''tr_error'' ''module_locale_error'' (ErrMsg [] e) True"

fun milestone :: "event \<Rightarrow> bool" where
  "milestone (Progress c t p) = True"
| "milestone (Log flag action message critical) = (action = ''module_locale_begin'')"
| "milestone ev = False"

fun pair_marks :: "nat \<Rightarrow> nat \<Rightarrow> (module \<times> target_locale) list \<Rightarrow> event list" where
  "pair_marks c t [] = []"
| "pair_marks c t ((m, target) # rest) =
     begin_log m target # Progress (Suc c) t (percent_of (Suc c) t) # pair_marks (Suc c) t rest"

definition all_pairs :: "module list \<Rightarrow> target_locale list \<Rightarrow> (module \<times> target_locale) list" where
  "all_pairs ms ts = concat (map (\<lambda>m. map (Pair m) ts) ms)"

text \<open>The values on which \<^verbatim>\<open>String\<close> throws: an object with an own property
  \<^verbatim>\<open>toString\<close>, or an array that holds such a value.\<close>

fun String_throws :: "json \<Rightarrow> bool"
  and String_throws_any :: "json list \<Rightarrow> bool" where
  "String_throws (JObj ps) = has_prop ps ''toString''"
| "String_throws (JArr xs) = String_throws_any xs"
| "String_throws JNull = False"
| "String_throws (JBool b) = False"
| "String_throws (JNum n) = False"
| "String_throws (JStr s) = False"
| "String_throws_any [] = False"
| "String_throws_any (x # xs) = (String_throws x \<or> String_throws_any xs)"

definition cfg0 :: config where
  "cfg0 = \<lparr> i18nBasePref = None, outputRoot = ''translations/jobs'', bucket = ''bkt'',
     inPrefix = ''translations/input'', outPrefix = ''translations/output'',
     roleArn = Some ''arn:aws:iam::1:role/TranslateDataAccessRole'', forceSync = False,
     tsFolder = ''ts'', source = \<lparr>folderCode = ''en'', awsCode = ''en''\<rparr>,
     targets = [\<lparr>folderCode = ''ph'', awsCode = ''tl''\<rparr>, \<lparr>folderCode = ''vi'', awsCode = ''vi''\<rparr>],
     simulate = False \<rparr>"

definition vi :: target_locale where
  "vi = \<lparr>folderCode = ''vi'', awsCode = ''vi''\<rparr>"

definition auth :: module where
  "auth = \<lparr>baseDir = ''i18n'', moduleName = ''auth'', moduleDir = ''i18n/auth'', sourceFile = ''i18n/auth/en.json''\<rparr>"

fun is_begin :: "event \<Rightarrow> bool" where
  "is_begin (Log flag action message critical) = (action = ''module_locale_begin'')"
| "is_begin ev = False"


text \<open>The second target locale of the sample configuration, and the entries that a pair
  of the sample module leaves in the trace: up to the end of the per-string translation
  (\<open>upto_translation\<close>, for the folder code and the sent string), from the conversion to
  the start of the cleanup when the file is written (\<open>delivered\<close>), and from the start of the
  run to the end of the discovery of \<open>n\<close> modules (\<open>discovered\<close>).\<close>

definition ph :: target_locale where
  "ph = \<lparr>folderCode = ''ph'', awsCode = ''tl''\<rparr>"

definition upto_translation :: "string \<Rightarrow> string \<Rightarrow> event list" where
  "upto_translation lc str =
     [Log ''tr_payload_build_start'' ''flatten'' (Msg ''Flattening i18n/auth/en.json -> JSONL'') False,
      ReadJsonSafe ''i18n/auth/en.json'',
      Log ''tr_payload_build_end'' ''flatten'' (Msg ''Payload built'') False,
      MathRandom,
      Log ''tr_s3_upload_start'' ''s3_put''
        (Msg (''Uploading input JSONL to s3://bkt/translations/input/ts/auth/'' @ lc @ ''/u1.jsonl'')) False,
      UploadFile ''bkt'' (''translations/input/ts/auth/'' @ lc @ ''/u1.jsonl'') [(''login.title'', JStr ''Hi {x}'')],
      Log ''tr_s3_upload_end'' ''s3_put'' (Msg ''Input uploaded'') False,
      Log ''tr_error'' ''batch_fail''
        (ErrMsg ''Batch failed; falling back to per-string. '' (ReferenceError ''jobName'')) True,
      Log ''tr_sync_start'' ''sync_translate'' (Msg ''Translating per-string'') False,
      TranslateText ''Hi {x}'' str,
      Log ''tr_sync_end'' ''sync_translate'' (Msg ''Per-string complete'') False]"

definition delivered :: "string \<Rightarrow> json \<Rightarrow> event list" where
  "delivered lc nested =
     [Log ''tr_convert_start'' ''unflatten'' (Msg ''Converting flat -> nested'') False,
      Log ''tr_convert_end'' ''unflatten'' (Msg ''Converted nested'') False,
      Log ''tr_validate_start'' ''validate'' (Msg ''Validating'') False,
      Log ''tr_validate_pass'' ''validate'' (Msg ''Validation passed'') False,
      Log ''tr_write_start'' ''write_file'' (Msg (''Writing translations/jobs/ts/auth/'' @ lc @ ''.json'')) False,
      WriteJsonPretty (''translations/jobs/ts/auth/'' @ lc @ ''.json'') nested,
      Log ''tr_write_end'' ''write_file'' (Msg ''File written'') False,
      Log ''tr_cleanup_start'' ''s3_cleanup'' (Msg ''Cleaning up S3 input & output'') False]"

definition discovered :: "nat \<Rightarrow> event list" where
  "discovered n =
     [Log ''tr_job_dir_start'' ''mkdir'' (Msg ''Ensuring job dir: translations/jobs/ts'') False,
      EnsureDir ''translations/jobs/ts'',
      Log ''tr_job_dir_end'' ''mkdir'' (Msg ''Job dir ready'') False,
      Log ''tr_scan_start'' ''scan'' (Msg ''Scanning base dirs'') False,
      ScanI18nBaseDirs None,
      ScanModulesWithEnglish ''i18n'',
      Log ''tr_scan_found'' ''scan'' (Msg (''Found '' @ show_nat n @ '' module(s) with en.json'')) False,
      Log ''tr_scan_end'' ''scan'' (Msg ''Scanning completed'') False]"

section \<open>Properties of the format helpers\<close>

subsection \<open>Validation\<close>

lemma reported_missing_eq:
  "reported_missing (validateKeyAndPlaceholderParity s t) = filter (\<lambda>key. \<not> has_prop t key) (map fst s)"
  by (simp add: reported_missing_def validateKeyAndPlaceholderParity_def Let_def)

lemma reported_extra_eq:
  "reported_extra (validateKeyAndPlaceholderParity s t) = filter (\<lambda>key. \<not> has_prop s key) (map fst t)"
  by (simp add: reported_extra_def validateKeyAndPlaceholderParity_def Let_def)

lemma reported_items_eq:
  "reported_items (validateKeyAndPlaceholderParity s t) = concat (map (placeholder_diff s t) (map fst s))"
  by (simp add: reported_items_def validateKeyAndPlaceholderParity_def Let_def)

lemma ok_iff_no_reports:
  "ok (validateKeyAndPlaceholderParity s t) \<longleftrightarrow>
     reported_missing (validateKeyAndPlaceholderParity s t) = []
   \<and> reported_extra (validateKeyAndPlaceholderParity s t) = []
   \<and> reported_items (validateKeyAndPlaceholderParity s t) = []"
  unfolding reported_missing_eq reported_extra_eq reported_items_eq
  by (simp add: validateKeyAndPlaceholderParity_def Let_def)

lemma placeholder_diff_set:
  "set (concat (map (placeholder_diff s t) ks)) =
     {(k, m, e). k \<in> set ks \<and> m = missingPH_of s t k \<and> e = extraPH_of s t k \<and> (m \<noteq> [] \<or> e \<noteq> [])}"
  by (induction ks) (auto simp: placeholder_diff_def Let_def missingPH_of_def extraPH_of_def)

text \<open>
  C2, as the code has it. The missing keys are the keys of the source that the target
  lacks, the extra keys the keys of the target that the source lacks, and the report is
  ok exactly when its three groups are empty. The placeholder group has an item for every
  key of the source, shared or not, whose target value lacks or adds a placeholder name;
  the value of a key that the target lacks is \<^verbatim>\<open>undefined\<close> and has no placeholders, so
  all placeholder names of the source value are then missing.
\<close>

theorem validate_report:
  "set (reported_missing (validateKeyAndPlaceholderParity sourceFlat targetFlat))
     = set (map fst sourceFlat) - set (map fst targetFlat)
   \<and> set (reported_extra (validateKeyAndPlaceholderParity sourceFlat targetFlat))
     = set (map fst targetFlat) - set (map fst sourceFlat)
   \<and> set (reported_items (validateKeyAndPlaceholderParity sourceFlat targetFlat))
     = {(key, missingPH, extraPH). key \<in> set (map fst sourceFlat)
          \<and> missingPH = missingPH_of sourceFlat targetFlat key
          \<and> extraPH = extraPH_of sourceFlat targetFlat key
          \<and> (missingPH \<noteq> [] \<or> extraPH \<noteq> [])}
   \<and> (ok (validateKeyAndPlaceholderParity sourceFlat targetFlat) \<longleftrightarrow>
        reported_missing (validateKeyAndPlaceholderParity sourceFlat targetFlat) = []
      \<and> reported_extra (validateKeyAndPlaceholderParity sourceFlat targetFlat) = []
      \<and> reported_items (validateKeyAndPlaceholderParity sourceFlat targetFlat) = [])"
proof -
  have 1: "set (reported_missing (validateKeyAndPlaceholderParity sourceFlat targetFlat))
     = set (map fst sourceFlat) - set (map fst targetFlat)"
    unfolding reported_missing_eq by (auto simp: has_prop_def)
  have 2: "set (reported_extra (validateKeyAndPlaceholderParity sourceFlat targetFlat))
     = set (map fst targetFlat) - set (map fst sourceFlat)"
    unfolding reported_extra_eq by (auto simp: has_prop_def)
  have 3: "set (reported_items (validateKeyAndPlaceholderParity sourceFlat targetFlat))
     = {(key, missingPH, extraPH). key \<in> set (map fst sourceFlat)
          \<and> missingPH = missingPH_of sourceFlat targetFlat key
          \<and> extraPH = extraPH_of sourceFlat targetFlat key
          \<and> (missingPH \<noteq> [] \<or> extraPH \<noteq> [])}"
    unfolding reported_items_eq by (rule placeholder_diff_set)
  from 1 2 3 ok_iff_no_reports [of sourceFlat targetFlat] show ?thesis
    by (intro conjI)
qed

theorem validate_report_witness:
  "set (reported_missing (validateKeyAndPlaceholderParity
      [(''a'', JStr ''1''), (''b'', JStr ''2'')] [(''a'', JStr ''1'')])) = {''b''}"
proof -
  have "set (reported_missing (validateKeyAndPlaceholderParity
          [(''a'', JStr ''1''), (''b'', JStr ''2'')] [(''a'', JStr ''1'')]))
      = set (map fst [(''a'', JStr ''1''), (''b'', JStr ''2'')]) - set (map fst [(''a'', JStr ''1'')])"
    using validate_report [of "[(''a'', JStr ''1''), (''b'', JStr ''2'')]" "[(''a'', JStr ''1'')]"]
    by (rule conjunct1)
  also have "\<dots> = {''b''}"
    by auto
  finally show ?thesis .
qed

text \<open>The key \<^verbatim>\<open>a\<close> is in the source only, and its placeholder \<^verbatim>\<open>x\<close> is reported all the
  same: the placeholder group is not limited to the keys that both maps have.\<close>

theorem validate_unshared_key_counterexample:
  "\<not> has_prop [] ''a''
   \<and> validateKeyAndPlaceholderParity [(''a'', JStr ''Hi {x}'')] []
       = \<lparr> ok = False, errors = [MissingKeys [''a''], PlaceholderMismatch [(''a'', [''x''], [])]] \<rparr>"
  by (simp add: validateKeyAndPlaceholderParity_def placeholder_diff_def has_prop_def get_prop_def
      set_add_def not_brace_def)

subsection \<open>Conflicting keys in unflattenJson\<close>

lemma get_set_prop_same [simp]: "get_prop (set_prop k v ps) k = Some v"
  by (induction ps) (auto simp: get_prop_def)

lemma get_set_prop_other [simp]: "k' \<noteq> k \<Longrightarrow> get_prop (set_prop k v ps) k' = get_prop ps k'"
  by (induction ps) (auto simp: get_prop_def)


lemma set_prop_twice [simp]: "set_prop k v (set_prop k w ps) = set_prop k v ps"
  by (induction ps) auto


lemma set_prop_new: "\<not> has_prop ps k \<Longrightarrow> set_prop k v ps = ps @ [(k, v)]"
  by (induction ps) (auto simp: has_prop_def)

lemma has_prop_simps [simp]:
  "has_prop [] k = False"
  "has_prop (p # ps) k = (fst p = k \<or> has_prop ps k)"
  "has_prop (ps @ qs) k = (has_prop ps k \<or> has_prop qs k)"
  by (auto simp: has_prop_def)



lemma split_dot_nonempty [simp]: "split_dot k \<noteq> []"
  by (induction k) auto









subsection \<open>The round trip of flattenJson and unflattenJson\<close>




lemma keyed_simps [simp]:
  "keyed prefix [] = []"
  "keyed prefix (L1 @ L2) = keyed prefix L1 @ keyed prefix L2"
  "keyed prefix ((p, v) # L) = (key_of prefix p, v) # keyed prefix L"
  by (auto simp: keyed_def)


lemma key_of_single [simp]: "key_of prefix [k] = flat_key prefix k"
  by (simp add: key_of_def)
























section \<open>Properties of the gateway\<close>

subsection \<open>Waiting for a batch job\<close>










section \<open>Properties of the runner\<close>

subsection \<open>Programs that return and keep the progress fields\<close>

lemma pbind_pret [simp]: "pbind (pret x) k = k x"
  by (rule ext) (simp add: pbind_def pret_def)

lemma pbind_pthrow [simp]: "pbind (pthrow e) k = pthrow e"
  by (rule ext) (simp add: pbind_def pthrow_def)

lemma pbind_Inr: "m s = Some (Inr x, s') \<Longrightarrow> pbind m k s = k x s'"
  by (simp add: pbind_def)

lemma pbind_Inl: "m s = Some (Inl e, s') \<Longrightarrow> pbind m k s = Some (Inl e, s')"
  by (simp add: pbind_def)

lemma properI:
  "(\<And>s. \<exists>r w evs. m s = Some (r, s\<lparr>world := w, trace := trace s @ evs\<rparr>)
          \<and> list_all (\<lambda>ev. \<not> runner_event ev) evs) \<Longrightarrow> proper m"
  by (simp add: proper_def)

lemma properD:
  "proper m \<Longrightarrow> \<exists>r w evs. m s = Some (r, s\<lparr>world := w, trace := trace s @ evs\<rparr>)
          \<and> list_all (\<lambda>ev. \<not> runner_event ev) evs"
  by (simp add: proper_def)

lemma state_same [simp]: "s\<lparr>world := world s, trace := trace s @ []\<rparr> = s"
  by simp

lemma proper_pret [intro!, simp]: "proper (pret x)"
proof (rule properI)
  fix s :: "'a run_state"
  have "pret x s = Some (Inr x, s\<lparr>world := world s, trace := trace s @ []\<rparr>)" by (simp add: pret_def)
  then show "\<exists>r w evs. pret x s = Some (r, s\<lparr>world := w, trace := trace s @ evs\<rparr>) \<and> list_all (\<lambda>ev. \<not> runner_event ev) evs"
    by (intro exI [of _ "Inr x"] exI [of _ "world s"] exI [of _ "[]"]) simp
qed

lemma proper_pthrow [intro!, simp]: "proper (pthrow e)"
proof (rule properI)
  fix s :: "'a run_state"
  have "pthrow e s = Some (Inl e, s\<lparr>world := world s, trace := trace s @ []\<rparr>)" by (simp add: pthrow_def)
  then show "\<exists>r w evs. pthrow e s = Some (r, s\<lparr>world := w, trace := trace s @ evs\<rparr>) \<and> list_all (\<lambda>ev. \<not> runner_event ev) evs"
    by (intro exI [of _ "Inl e"] exI [of _ "world s"] exI [of _ "[]"]) simp
qed

lemma proper_emit: "\<not> runner_event ev \<Longrightarrow> proper (emit ev)"
proof (rule properI)
  fix s :: "'a run_state"
  assume i: "\<not> runner_event ev"
  have "emit ev s = Some (Inr (), s\<lparr>world := world s, trace := trace s @ [ev]\<rparr>)" by (simp add: emit_def)
  with i show "\<exists>r w evs. emit ev s = Some (r, s\<lparr>world := w, trace := trace s @ evs\<rparr>) \<and> list_all (\<lambda>ev. \<not> runner_event ev) evs"
    by (intro exI [of _ "Inr ()"] exI [of _ "world s"] exI [of _ "[ev]"]) simp
qed

lemma proper_call: "\<not> runner_event ev \<Longrightarrow> proper (call ev f)"
proof (rule properI)
  fix s :: "'a run_state"
  assume i: "\<not> runner_event ev"
  obtain r w where "f (world s) = (r, w)" by (cases "f (world s)")
  then have "call ev f s = Some (r, s\<lparr>world := w, trace := trace s @ [ev]\<rparr>)" by (simp add: call_def)
  with i show "\<exists>r w evs. call ev f s = Some (r, s\<lparr>world := w, trace := trace s @ evs\<rparr>) \<and> list_all (\<lambda>ev. \<not> runner_event ev) evs"
    by (intro exI [of _ r] exI [of _ w] exI [of _ "[ev]"]) simp
qed

lemma proper_pbind: 
  assumes "proper m" "\<And>x. proper (k x)"
  shows "proper (pbind m k)"
proof (rule properI)
  fix s :: "'a run_state"
  from properD [OF assms(1), of s] obtain r w evs where
    m: "m s = Some (r, s\<lparr>world := w, trace := trace s @ evs\<rparr>)" and i: "list_all (\<lambda>ev. \<not> runner_event ev) evs"
    by blast
  show "\<exists>r w evs. pbind m k s = Some (r, s\<lparr>world := w, trace := trace s @ evs\<rparr>) \<and> list_all (\<lambda>ev. \<not> runner_event ev) evs"
  proof (cases r)
    case (Inl e)
    with m have "pbind m k s = Some (Inl e, s\<lparr>world := w, trace := trace s @ evs\<rparr>)" by (simp add: pbind_def)
    with i show ?thesis by blast
  next
    case (Inr x)
    from properD [OF assms(2), of x "s\<lparr>world := w, trace := trace s @ evs\<rparr>"] obtain r' w' evs' where
      k: "k x (s\<lparr>world := w, trace := trace s @ evs\<rparr>) = Some (r', s\<lparr>world := w', trace := trace s @ (evs @ evs')\<rparr>)"
      and i': "list_all (\<lambda>ev. \<not> runner_event ev) evs'"
      by auto
    from m Inr k have "pbind m k s = Some (r', s\<lparr>world := w', trace := trace s @ (evs @ evs')\<rparr>)"
      by (simp add: pbind_def)
    moreover from i i' have "list_all (\<lambda>ev. \<not> runner_event ev) (evs @ evs')" by simp
    ultimately show ?thesis by blast
  qed
qed

lemma proper_pcatch: 
  assumes "proper m" "\<And>e. proper (h e)"
  shows "proper (pcatch m h)"
proof (rule properI)
  fix s :: "'a run_state"
  from properD [OF assms(1), of s] obtain r w evs where
    m: "m s = Some (r, s\<lparr>world := w, trace := trace s @ evs\<rparr>)" and i: "list_all (\<lambda>ev. \<not> runner_event ev) evs"
    by blast
  show "\<exists>r w evs. pcatch m h s = Some (r, s\<lparr>world := w, trace := trace s @ evs\<rparr>) \<and> list_all (\<lambda>ev. \<not> runner_event ev) evs"
  proof (cases r)
    case (Inr x)
    with m have "pcatch m h s = Some (Inr x, s\<lparr>world := w, trace := trace s @ evs\<rparr>)" by (simp add: pcatch_def)
    with i show ?thesis by blast
  next
    case (Inl e)
    from properD [OF assms(2), of e "s\<lparr>world := w, trace := trace s @ evs\<rparr>"] obtain r' w' evs' where
      k: "h e (s\<lparr>world := w, trace := trace s @ evs\<rparr>) = Some (r', s\<lparr>world := w', trace := trace s @ (evs @ evs')\<rparr>)"
      and i': "list_all (\<lambda>ev. \<not> runner_event ev) evs'"
      by auto
    from m Inl k have "pcatch m h s = Some (r', s\<lparr>world := w', trace := trace s @ (evs @ evs')\<rparr>)"
      by (simp add: pcatch_def)
    moreover from i i' have "list_all (\<lambda>ev. \<not> runner_event ev) (evs @ evs')" by simp
    ultimately show ?thesis by blast
  qed
qed

lemma proper_lift [intro!, simp]: "proper (lift r)"
  by (cases r) (simp_all add: lift_def)

lemma proper_rlog:
  "action \<noteq> ''module_locale_begin'' \<Longrightarrow> action \<noteq> ''module_locale_end'' \<Longrightarrow> action \<noteq> ''module_locale_error''
   \<Longrightarrow> proper (rlog flag action message critical)"
  unfolding rlog_def by (rule proper_emit) simp

lemma proper_step:
  "action \<noteq> ''module_locale_begin'' \<Longrightarrow> action \<noteq> ''module_locale_end'' \<Longrightarrow> action \<noteq> ''module_locale_error''
   \<Longrightarrow> proper fn \<Longrightarrow> proper (step sf ef action ms me fn)"
  unfolding step_def by (intro proper_pbind proper_rlog proper_pret)

lemma proper_translateText: "proper (translateText sys text targetLang)"
  unfolding translateText_def by (intro proper_pbind proper_lift proper_call) simp

lemma proper_translate_lines: "proper (translate_lines sys targetAws lines ret)"
proof (induction lines arbitrary: ret)
  case Nil
  show ?case by simp
next
  case (Cons a lines)
  obtain key tx where "a = (key, tx)" by (cases a)
  with Cons show ?case by (simp add: proper_pbind proper_translateText)
qed

lemma proper_fallback: "proper (fallback sys targetAws lines)"
  unfolding fallback_def
  by (intro proper_pbind proper_step proper_translate_lines proper_pret) simp_all

lemma batch_body_throws:
  "batch_body sys targetAws lines inputUri outputUri = pret (None, Some (ReferenceError ''jobName''))"
  by (rule ext) (simp add: batch_body_def pcatch_def pthrow_def pret_def)

lemma try_batch_fails:
  "try_batch sys targetAws lines inputUri outputUri =
     pbind (rlog ''tr_error'' ''batch_fail''
              (ErrMsg ''Batch failed; falling back to per-string. '' (ReferenceError ''jobName'')) True)
       (\<lambda>_. pret None)"
  by (simp add: try_batch_def batch_body_throws)

lemma proper_try_batch: "proper (try_batch sys targetAws lines inputUri outputUri)"
  unfolding try_batch_fails by (intro proper_pbind proper_rlog proper_pret) simp_all

lemma proper_buildPayload: "proper (buildPayload sys enFile)"
  unfolding buildPayload_def
  by (intro proper_step proper_pbind proper_call) (auto simp: Let_def split: option.splits)

lemma proper_putJsonl: "proper (putJsonl sys b key lines)"
  unfolding putJsonl_def by (intro proper_pbind proper_call proper_pret) simp

lemma proper_s3InputKey: "proper (s3InputKey sys cfg mn lc)"
  unfolding s3InputKey_def by (intro proper_pbind proper_call proper_pret) simp

lemma proper_obtain_translation: "proper (obtain_translation sys cfg mn enFile target)"
  unfolding obtain_translation_def Let_def
  by (intro proper_pbind proper_buildPayload proper_s3InputKey proper_step proper_putJsonl)
     (auto simp: proper_try_batch proper_fallback proper_s3InputKey proper_step proper_putJsonl
           intro!: proper_pbind split: option.splits prod.splits)

lemma proper_cleanup: "proper (cleanup sys cfg ik op)"
  unfolding cleanup_def
  by (intro proper_pbind proper_call) (auto intro!: proper_call)

lemma proper_deliver: "proper (deliver sys cfg mn jobDir target src tf ik op)"
  unfolding deliver_def Let_def
  by (intro proper_pbind proper_step proper_lift)
     (auto intro!: proper_pbind proper_step proper_rlog proper_call proper_cleanup)

lemma proper_translateModuleLocale: "proper (translateModuleLocale sys cfg mn enFile jobDir target)"
  unfolding translateModuleLocale_def
  by (intro proper_pbind proper_obtain_translation) (auto simp: proper_deliver)

subsection \<open>One pair, and the loops over the pairs\<close>

lemma process_pair_run:
  assumes "translateModuleLocale sys cfg (moduleName m) (sourceFile m) jobDir target
             (s\<lparr>trace := trace s @ [begin_log m target]\<rparr>) = Some (r, s')"
  shows "process_pair sys cfg jobDir m target s =
           Some (Inr (), s'\<lparr>completedPairs := completedPairs s' + 1,
                   trace := trace s' @ [outcome_log m target r,
                     Progress (completedPairs s' + 1) (totalPairs s')
                       (percent_of (completedPairs s' + 1) (totalPairs s'))]\<rparr>)"
  using assms
  by (cases r)
     (simp_all add: process_pair_def pbind_def pfinally_def pcatch_def rlog_def emit_def progressTick_def
        begin_log_def)

lemma process_pair_effect:
  "\<exists>w evs r. process_pair sys cfg jobDir m target s =
       Some (Inr (), s\<lparr>world := w, completedPairs := Suc (completedPairs s),
               trace := trace s @ begin_log m target # evs @ [outcome_log m target r,
                 Progress (Suc (completedPairs s)) (totalPairs s)
                   (percent_of (Suc (completedPairs s)) (totalPairs s))]\<rparr>)
     \<and> list_all (\<lambda>ev. \<not> runner_event ev) evs"
proof -
  from properD [OF proper_translateModuleLocale, of sys cfg "moduleName m" "sourceFile m" jobDir target
      "s\<lparr>trace := trace s @ [begin_log m target]\<rparr>"]
  obtain r w evs where
    t: "translateModuleLocale sys cfg (moduleName m) (sourceFile m) jobDir target
          (s\<lparr>trace := trace s @ [begin_log m target]\<rparr>)
        = Some (r, s\<lparr>world := w, trace := trace s @ begin_log m target # evs\<rparr>)"
    and i: "list_all (\<lambda>ev. \<not> runner_event ev) evs"
    by auto
  from process_pair_run [OF t] i show ?thesis
    by (intro exI [of _ w] exI [of _ evs] exI [of _ r]) simp
qed

lemma milestone_inner: "list_all (\<lambda>ev. \<not> runner_event ev) evs \<Longrightarrow> filter milestone evs = []"
proof (induction evs)
  case Nil
  show ?case by simp
next
  case (Cons ev evs)
  then show ?case by (cases ev) auto
qed

lemma milestone_outcome [simp]: "\<not> milestone (outcome_log m target r)"
  by (cases r) simp_all

lemma milestone_begin [simp]: "milestone (begin_log m target)"
  by (simp add: begin_log_def)

lemma process_pair_marks:
  "\<exists>s'. process_pair sys cfg jobDir m target s = Some (Inr (), s')
     \<and> totalPairs s' = totalPairs s \<and> completedPairs s' = Suc (completedPairs s)
     \<and> filter milestone (trace s') = filter milestone (trace s)
          @ pair_marks (completedPairs s) (totalPairs s) [(m, target)]"
proof -
  from process_pair_effect [of sys cfg jobDir m target s] obtain w evs r where
    p: "process_pair sys cfg jobDir m target s =
       Some (Inr (), s\<lparr>world := w, completedPairs := Suc (completedPairs s),
               trace := trace s @ begin_log m target # evs @ [outcome_log m target r,
                 Progress (Suc (completedPairs s)) (totalPairs s)
                   (percent_of (Suc (completedPairs s)) (totalPairs s))]\<rparr>)"
    and i: "list_all (\<lambda>ev. \<not> runner_event ev) evs"
    by blast
  from p milestone_inner [OF i] show ?thesis by simp
qed

lemma pair_marks_append:
  "pair_marks c t (xs @ ys) = pair_marks c t xs @ pair_marks (c + length xs) t ys"
  by (induction c t xs rule: pair_marks.induct) simp_all

lemma for_targets_marks:
  "\<exists>s'. for_targets sys cfg jobDir m ts s = Some (Inr (), s')
     \<and> totalPairs s' = totalPairs s \<and> completedPairs s' = completedPairs s + length ts
     \<and> filter milestone (trace s') = filter milestone (trace s)
          @ pair_marks (completedPairs s) (totalPairs s) (map (Pair m) ts)"
proof (induction ts arbitrary: s)
  case Nil
  show ?case by (simp add: pret_def)
next
  case (Cons target ts)
  from process_pair_marks [of sys cfg jobDir m target s] obtain s1 where
    1: "process_pair sys cfg jobDir m target s = Some (Inr (), s1)"
       "totalPairs s1 = totalPairs s" "completedPairs s1 = Suc (completedPairs s)"
       "filter milestone (trace s1) = filter milestone (trace s)
          @ pair_marks (completedPairs s) (totalPairs s) [(m, target)]"
    by blast
  from Cons.IH [of s1] obtain s' where
    2: "for_targets sys cfg jobDir m ts s1 = Some (Inr (), s')"
       "totalPairs s' = totalPairs s1" "completedPairs s' = completedPairs s1 + length ts"
       "filter milestone (trace s') = filter milestone (trace s1)
          @ pair_marks (completedPairs s1) (totalPairs s1) (map (Pair m) ts)"
    by blast
  from 1 2 show ?case by (simp add: pbind_Inr)
qed

lemma for_modules_marks:
  "\<exists>s'. for_modules sys cfg jobDir ms s = Some (Inr (), s')
     \<and> totalPairs s' = totalPairs s
     \<and> completedPairs s' = completedPairs s + length ms * length (targets cfg)
     \<and> filter milestone (trace s') = filter milestone (trace s)
          @ pair_marks (completedPairs s) (totalPairs s) (all_pairs ms (targets cfg))"
proof (induction ms arbitrary: s)
  case Nil
  show ?case by (simp add: pret_def all_pairs_def)
next
  case (Cons m ms)
  from for_targets_marks [of sys cfg jobDir m "targets cfg" s] obtain s1 where
    1: "for_targets sys cfg jobDir m (targets cfg) s = Some (Inr (), s1)"
       "totalPairs s1 = totalPairs s" "completedPairs s1 = completedPairs s + length (targets cfg)"
       "filter milestone (trace s1) = filter milestone (trace s)
          @ pair_marks (completedPairs s) (totalPairs s) (map (Pair m) (targets cfg))"
    by blast
  from Cons.IH [of s1] obtain s' where
    2: "for_modules sys cfg jobDir ms s1 = Some (Inr (), s')"
       "totalPairs s' = totalPairs s1"
       "completedPairs s' = completedPairs s1 + length ms * length (targets cfg)"
       "filter milestone (trace s') = filter milestone (trace s1)
          @ pair_marks (completedPairs s1) (totalPairs s1) (all_pairs ms (targets cfg))"
    by blast
  from 1 2 show ?case by (simp add: pbind_Inr all_pairs_def pair_marks_append)
qed

lemma length_all_pairs: "length (all_pairs ms ts) = length ms * length ts"
  by (induction ms) (simp_all add: all_pairs_def)

lemma generate_after_discovery:
  assumes "ensureJobDir sys cfg s = Some (Inr jobDir, s1)"
    and "scanAllModules sys cfg s1 = Some (Inr modules, s2)"
  shows "\<exists>s'. generateBulkTranslations sys cfg s = Some (Inr jobDir, s')
     \<and> totalPairs s' = length modules * length (targets cfg)
     \<and> completedPairs s' = length modules * length (targets cfg)
     \<and> filter milestone (trace s') = filter milestone (trace s2)
          @ Progress 0 (length modules * length (targets cfg)) (percent_of 0 (length modules * length (targets cfg)))
          # pair_marks 0 (length modules * length (targets cfg)) (all_pairs modules (targets cfg))"
proof -
  let ?T = "length modules * length (targets cfg)"
  let ?s3 = "s2\<lparr>totalPairs := ?T, completedPairs := 0,
                trace := trace s2 @ [Progress 0 ?T (percent_of 0 ?T),
                  Log ''tr_runner_start'' ''announce''
                    (Msg ''Runner will process (module/en) -> all target locales'') False]\<rparr>"
  from for_modules_marks [of sys cfg jobDir modules ?s3] obtain s4 where
    4: "for_modules sys cfg jobDir modules ?s3 = Some (Inr (), s4)"
       "totalPairs s4 = ?T" "completedPairs s4 = ?T"
       "filter milestone (trace s4) = filter milestone (trace ?s3) @ pair_marks 0 ?T (all_pairs modules (targets cfg))"
    by auto
  have "generateBulkTranslations sys cfg s =
      Some (Inr jobDir, s4\<lparr>trace := trace s4 @ [Log ''tr_runner_end'' ''done'' (Msg ''All modules & locales processed'') False]\<rparr>)"
    using assms 4(1)
    by (simp add: generateBulkTranslations_def pbind_def progressTick_def emit_def rlog_def pret_def)
  with 4 show ?thesis by simp
qed

subsection \<open>The association of batch results\<close>


lemma String_throws_any_iff: "String_throws_any xs \<longleftrightarrow> (\<exists>x \<in> set xs. String_throws x)"
  by (induction xs) auto


lemma set_prop_keys_new: "\<not> has_prop ps k \<Longrightarrow> map fst (set_prop k v ps) = map fst ps @ [k]"
  by (simp add: set_prop_new)





lemma proper_ensureJobDir: "proper (ensureJobDir sys cfg)"
  unfolding ensureJobDir_def Let_def
  by (intro proper_pbind proper_step proper_call proper_pret) simp_all

lemma proper_simulate: "proper (simulateI18nIfRequested sys cfg base)"
  unfolding simulateI18nIfRequested_def Let_def
  by (auto intro!: proper_pbind proper_call)

lemma proper_scan_bases: "proper (scan_bases sys cfg bases found)"
proof (induction bases arbitrary: found)
  case Nil
  show ?case by simp
next
  case (Cons base bases)
  show ?case
    by (simp, intro proper_pbind proper_simulate proper_call Cons.IH) simp
qed

lemma proper_scanAllModules: "proper (scanAllModules sys cfg)"
  unfolding scanAllModules_def
  by (intro proper_pbind proper_rlog proper_call)
     (auto intro!: proper_pbind proper_rlog proper_scan_bases)

lemma proper_returns: "proper m \<Longrightarrow> \<exists>r s'. m s = Some (r, s')"
  using properD [of m s] by blast

lemma percent_of_zero [simp]: "percent_of 0 t = 0"
  by (simp add: percent_of_def)




lemma is_begin_milestone: "filter is_begin (filter milestone tr) = filter is_begin tr"
proof (induction tr)
  case Nil
  show ?case by simp
next
  case (Cons ev tr)
  then show ?case by (cases ev) auto
qed

lemma is_begin_pair_marks: "filter is_begin (pair_marks c t ps) = map (\<lambda>p. begin_log (fst p) (snd p)) ps"
  by (induction c t ps rule: pair_marks.induct) (simp_all add: begin_log_def)

lemma scan_no_base:
  assumes "fs_scanI18nBaseDirs sys (i18nBasePref cfg) (world s) = (Inr [], w)"
  shows "scanAllModules sys cfg s = Some (Inl (Error ''No i18n/18n base directory found''),
           s\<lparr>world := w, trace := trace s @ [Log ''tr_scan_start'' ''scan'' (Msg ''Scanning base dirs'') False,
             ScanI18nBaseDirs (i18nBasePref cfg)]\<rparr>)"
  using assms
  by (simp add: scanAllModules_def pbind_def rlog_def emit_def call_def pthrow_def)

text \<open>
  C6, as the code has it. A pair never raises to the loop: whatever happens inside it is
  caught, and every pair of the product is begun, in order, when the discovery has
  returned. The run raises to its caller exactly what \<^verbatim>\<open>ensureJobDir\<close> or
  \<^verbatim>\<open>scanAllModules\<close> raises, and the latter raises when no base directory is found. With
  base directories and no module in them the run returns the job directory.
\<close>

theorem run_continues:
  "(\<exists>r s1. ensureJobDir sys cfg s = Some (r, s1))
   \<and> (\<exists>r s2. scanAllModules sys cfg s = Some (r, s2))
   \<and> (\<exists>sp. process_pair sys cfg jobDir m target s = Some (Inr (), sp))
   \<and> (ensureJobDir sys cfg s = Some (Inl e, s1) \<longrightarrow> generateBulkTranslations sys cfg s = Some (Inl e, s1))
   \<and> (ensureJobDir sys cfg s = Some (Inr jobDir, s1) \<and> scanAllModules sys cfg s1 = Some (Inl e, s2) \<longrightarrow>
        generateBulkTranslations sys cfg s = Some (Inl e, s2))
   \<and> (ensureJobDir sys cfg s = Some (Inr jobDir, s1) \<and> scanAllModules sys cfg s1 = Some (Inr modules, s2) \<longrightarrow>
        (\<exists>s'. generateBulkTranslations sys cfg s = Some (Inr jobDir, s')
           \<and> filter is_begin (trace s') = filter is_begin (trace s2)
                @ map (\<lambda>p. begin_log (fst p) (snd p)) (all_pairs modules (targets cfg))))
   \<and> (fs_scanI18nBaseDirs sys (i18nBasePref cfg) (world s) = (Inr [], w) \<longrightarrow>
        (\<exists>s2. scanAllModules sys cfg s = Some (Inl (Error ''No i18n/18n base directory found''), s2)))"
proof (intro conjI impI)
  show "\<exists>r s1. ensureJobDir sys cfg s = Some (r, s1)"
    by (rule proper_returns [OF proper_ensureJobDir])
  show "\<exists>r s2. scanAllModules sys cfg s = Some (r, s2)"
    by (rule proper_returns [OF proper_scanAllModules])
  from process_pair_marks [of sys cfg jobDir m target s]
  show "\<exists>sp. process_pair sys cfg jobDir m target s = Some (Inr (), sp)" by blast
next
  assume "ensureJobDir sys cfg s = Some (Inl e, s1)"
  then show "generateBulkTranslations sys cfg s = Some (Inl e, s1)"
    by (simp add: generateBulkTranslations_def pbind_Inl)
next
  assume "ensureJobDir sys cfg s = Some (Inr jobDir, s1) \<and> scanAllModules sys cfg s1 = Some (Inl e, s2)"
  then show "generateBulkTranslations sys cfg s = Some (Inl e, s2)"
    by (simp add: generateBulkTranslations_def pbind_Inl pbind_Inr)
next
  assume "ensureJobDir sys cfg s = Some (Inr jobDir, s1) \<and> scanAllModules sys cfg s1 = Some (Inr modules, s2)"
  then have a: "ensureJobDir sys cfg s = Some (Inr jobDir, s1)" "scanAllModules sys cfg s1 = Some (Inr modules, s2)"
    by simp_all
  from generate_after_discovery [OF a] obtain s' where
    g: "generateBulkTranslations sys cfg s = Some (Inr jobDir, s')"
    and m: "filter milestone (trace s') = filter milestone (trace s2)
          @ Progress 0 (length modules * length (targets cfg)) (percent_of 0 (length modules * length (targets cfg)))
          # pair_marks 0 (length modules * length (targets cfg)) (all_pairs modules (targets cfg))"
    by blast
  have "filter is_begin (trace s') = filter is_begin (filter milestone (trace s'))"
    by (simp only: is_begin_milestone)
  also have "\<dots> = filter is_begin (filter milestone (trace s2))
      @ map (\<lambda>p. begin_log (fst p) (snd p)) (all_pairs modules (targets cfg))"
    unfolding m by (simp add: is_begin_pair_marks)
  finally have "filter is_begin (trace s') = filter is_begin (trace s2)
      @ map (\<lambda>p. begin_log (fst p) (snd p)) (all_pairs modules (targets cfg))"
    by (simp only: is_begin_milestone)
  with g show "\<exists>s'. generateBulkTranslations sys cfg s = Some (Inr jobDir, s')
           \<and> filter is_begin (trace s') = filter is_begin (trace s2)
                @ map (\<lambda>p. begin_log (fst p) (snd p)) (all_pairs modules (targets cfg))"
    by blast
next
  assume "fs_scanI18nBaseDirs sys (i18nBasePref cfg) (world s) = (Inr [], w)"
  from scan_no_base [OF this]
  show "\<exists>s2. scanAllModules sys cfg s = Some (Inl (Error ''No i18n/18n base directory found''), s2)"
    by blast
qed

theorem run_continues_witness:
  "\<exists>s'. generateBulkTranslations (stub_env\<lparr>fs_readJsonSafe := (\<lambda>file w. (Inr None, w))\<rparr>) cfg0 (start_state ())
          = Some (Inr ''translations/jobs/ts'', s')
      \<and> filter is_begin (trace s') = [begin_log auth ph, begin_log auth vi]"
proof -
  let ?E = "stub_env\<lparr>fs_readJsonSafe := (\<lambda>file w. (Inr None, w))\<rparr> :: unit env"
  let ?S1 = "\<lparr>world = (), trace = take 3 (discovered 1), totalPairs = 0, completedPairs = 0\<rparr>"
  let ?S2 = "\<lparr>world = (), trace = discovered 1, totalPairs = 0, completedPairs = 0\<rparr>"
  have h: "ensureJobDir ?E cfg0 (start_state ()) = Some (Inr ''translations/jobs/ts'', ?S1)
      \<and> scanAllModules ?E cfg0 ?S1 = Some (Inr [auth], ?S2)"
    by code_simp
  have m: "filter is_begin (trace ?S2) = []" by (simp add: discovered_def)
  have p: "map (\<lambda>p. begin_log (fst p) (snd p)) (all_pairs [auth] (targets cfg0)) = [begin_log auth ph, begin_log auth vi]"
    by (simp add: all_pairs_def cfg0_def ph_def vi_def)
  from run_continues [where sys = ?E and cfg = cfg0 and s = "start_state ()" and jobDir = "''translations/jobs/ts''"
      and ?s1.0 = ?S1 and modules = "[auth]" and ?s2.0 = ?S2,
      THEN conjunct2, THEN conjunct2, THEN conjunct2, THEN conjunct2, THEN conjunct2, THEN conjunct1, THEN mp, OF h]
  show ?thesis unfolding m p by simp
qed

text \<open>With a base directory that holds no module the run is not fatal: it returns the job
  directory with nothing processed. When the job directory cannot be made the run raises,
  although the discovery has not even started.\<close>

theorem run_fatal_counterexample:
  "generateBulkTranslations (stub_env\<lparr>fs_scanModulesWithEnglish := (\<lambda>base w. (Inr [], w))\<rparr>) cfg0 (start_state ())
     = Some (Inr ''translations/jobs/ts'',
         \<lparr>world = (),
          trace = discovered 0 @
            [Progress 0 0 0,
             Log ''tr_runner_start'' ''announce'' (Msg ''Runner will process (module/en) -> all target locales'') False,
             Log ''tr_runner_end'' ''done'' (Msg ''All modules & locales processed'') False],
          totalPairs = 0, completedPairs = 0\<rparr>)
   \<and> generateBulkTranslations (stub_env\<lparr>fs_ensureDir := (\<lambda>p w. (Inl (Error ''EACCES''), w))\<rparr>) cfg0 (start_state ())
     = Some (Inl (Error ''EACCES''),
         \<lparr>world = (), trace = take 2 (discovered 0), totalPairs = 0, completedPairs = 0\<rparr>)"
  by code_simp

lemma call_run: "f (world s) = (r, w) \<Longrightarrow> call ev f s = Some (r, s\<lparr>world := w, trace := trace s @ [ev]\<rparr>)"
  by (simp add: call_def)

lemma translateModuleLocale_deliver:
  "obtain_translation sys cfg mn enFile target s = Some (Inr (src, tf, ik, op), s1) \<Longrightarrow>
   translateModuleLocale sys cfg mn enFile jobDir target s = deliver sys cfg mn jobDir target src tf ik op s1"
  by (simp add: translateModuleLocale_def pbind_Inr)

lemma deliver_invalid:
  "unflattenJson tf = Inr nested \<Longrightarrow> \<not> ok (validateKeyAndPlaceholderParity src tf) \<Longrightarrow>
   deliver sys cfg mn jobDir target src tf ik op s =
     Some (Inl (ValidationFailed mn (folderCode target) (errors (validateKeyAndPlaceholderParity src tf))),
       s\<lparr>trace := trace s @
         [Log ''tr_convert_start'' ''unflatten'' (Msg ''Converting flat -> nested'') False,
          Log ''tr_convert_end'' ''unflatten'' (Msg ''Converted nested'') False,
          Log ''tr_validate_start'' ''validate'' (Msg ''Validating'') False,
          Log ''tr_validate_fail'' ''validate'' (Msg ''Validation failed'') False,
          Log ''tr_error'' ''validate_fail''
            (ErrMsg [] (ValidationFailed mn (folderCode target) (errors (validateKeyAndPlaceholderParity src tf)))) True]\<rparr>)"
  by (simp add: deliver_def step_def pbind_def rlog_def emit_def lift_def pret_def pthrow_def Let_def)

lemma deliver_cleanup_fails:
  "unflattenJson tf = Inr nested \<Longrightarrow> ok (validateKeyAndPlaceholderParity src tf) \<Longrightarrow>
   fs_writeJsonPretty sys (localOut sys jobDir mn (folderCode target)) nested (world s) = (Inr (), w2) \<Longrightarrow>
   cleanup sys cfg ik op
     (s\<lparr>world := w2, trace := trace s @
         [Log ''tr_convert_start'' ''unflatten'' (Msg ''Converting flat -> nested'') False,
          Log ''tr_convert_end'' ''unflatten'' (Msg ''Converted nested'') False,
          Log ''tr_validate_start'' ''validate'' (Msg ''Validating'') False,
          Log ''tr_validate_pass'' ''validate'' (Msg ''Validation passed'') False,
          Log ''tr_write_start'' ''write_file'' (Msg (''Writing '' @ localOut sys jobDir mn (folderCode target))) False,
          WriteJsonPretty (localOut sys jobDir mn (folderCode target)) nested,
          Log ''tr_write_end'' ''write_file'' (Msg ''File written'') False,
          Log ''tr_cleanup_start'' ''s3_cleanup'' (Msg ''Cleaning up S3 input & output'') False]\<rparr>)
     = Some (Inl e, s3) \<Longrightarrow>
   deliver sys cfg mn jobDir target src tf ik op s = Some (Inl e, s3)"
  by (simp add: deliver_def step_def pbind_def rlog_def emit_def lift_def pret_def pthrow_def Let_def call_def)

text \<open>
  C3, as the code has it. When the translated flat map of a pair fails the validation, the
  error is logged as critical twice (by \<^verbatim>\<open>translateModuleLocale\<close> and by the loop), the pair
  is counted and reported, and nothing else happens after the state in which the
  translation was obtained: the trace has no write of a local file and no call of the
  cleanup, so the staged input stays in the bucket.
\<close>

theorem validation_failure:
  "obtain_translation sys cfg (moduleName m) (sourceFile m) target (s\<lparr>trace := trace s @ [begin_log m target]\<rparr>)
      = Some (Inr (flatSource, translatedFlat, inputKey, outputPrefix), s1)
   \<and> unflattenJson translatedFlat = Inr nested
   \<and> \<not> ok (validateKeyAndPlaceholderParity flatSource translatedFlat)
   \<longrightarrow> process_pair sys cfg jobDir m target s =
     Some (Inr (), s1\<lparr>completedPairs := completedPairs s1 + 1, trace := trace s1 @
         [Log ''tr_convert_start'' ''unflatten'' (Msg ''Converting flat -> nested'') False,
          Log ''tr_convert_end'' ''unflatten'' (Msg ''Converted nested'') False,
          Log ''tr_validate_start'' ''validate'' (Msg ''Validating'') False,
          Log ''tr_validate_fail'' ''validate'' (Msg ''Validation failed'') False,
          Log ''tr_error'' ''validate_fail''
            (ErrMsg [] (ValidationFailed (moduleName m) (folderCode target)
               (errors (validateKeyAndPlaceholderParity flatSource translatedFlat)))) True,
          Log ''tr_error'' ''module_locale_error''
            (ErrMsg [] (ValidationFailed (moduleName m) (folderCode target)
               (errors (validateKeyAndPlaceholderParity flatSource translatedFlat)))) True,
          Progress (completedPairs s1 + 1) (totalPairs s1) (percent_of (completedPairs s1 + 1) (totalPairs s1))]\<rparr>)"
proof (intro impI, elim conjE)
  assume o: "obtain_translation sys cfg (moduleName m) (sourceFile m) target (s\<lparr>trace := trace s @ [begin_log m target]\<rparr>)
      = Some (Inr (flatSource, translatedFlat, inputKey, outputPrefix), s1)"
    and u: "unflattenJson translatedFlat = Inr nested"
    and v: "\<not> ok (validateKeyAndPlaceholderParity flatSource translatedFlat)"
  from translateModuleLocale_deliver [OF o, of jobDir] deliver_invalid [OF u v]
  have "translateModuleLocale sys cfg (moduleName m) (sourceFile m) jobDir target (s\<lparr>trace := trace s @ [begin_log m target]\<rparr>)
    = Some (Inl (ValidationFailed (moduleName m) (folderCode target) (errors (validateKeyAndPlaceholderParity flatSource translatedFlat))),
       s1\<lparr>trace := trace s1 @
         [Log ''tr_convert_start'' ''unflatten'' (Msg ''Converting flat -> nested'') False,
          Log ''tr_convert_end'' ''unflatten'' (Msg ''Converted nested'') False,
          Log ''tr_validate_start'' ''validate'' (Msg ''Validating'') False,
          Log ''tr_validate_fail'' ''validate'' (Msg ''Validation failed'') False,
          Log ''tr_error'' ''validate_fail''
            (ErrMsg [] (ValidationFailed (moduleName m) (folderCode target) (errors (validateKeyAndPlaceholderParity flatSource translatedFlat)))) True]\<rparr>)"
    by simp
  from process_pair_run [OF this] show "process_pair sys cfg jobDir m target s =
     Some (Inr (), s1\<lparr>completedPairs := completedPairs s1 + 1, trace := trace s1 @
         [Log ''tr_convert_start'' ''unflatten'' (Msg ''Converting flat -> nested'') False,
          Log ''tr_convert_end'' ''unflatten'' (Msg ''Converted nested'') False,
          Log ''tr_validate_start'' ''validate'' (Msg ''Validating'') False,
          Log ''tr_validate_fail'' ''validate'' (Msg ''Validation failed'') False,
          Log ''tr_error'' ''validate_fail''
            (ErrMsg [] (ValidationFailed (moduleName m) (folderCode target)
               (errors (validateKeyAndPlaceholderParity flatSource translatedFlat)))) True,
          Log ''tr_error'' ''module_locale_error''
            (ErrMsg [] (ValidationFailed (moduleName m) (folderCode target)
               (errors (validateKeyAndPlaceholderParity flatSource translatedFlat)))) True,
          Progress (completedPairs s1 + 1) (totalPairs s1) (percent_of (completedPairs s1 + 1) (totalPairs s1))]\<rparr>)"
    by simp
qed

lemma obtain_when_placeholder_lost:
  "obtain_translation (stub_env\<lparr>aws_translateText := (\<lambda>str target w. (Inr ''Hola'', w))\<rparr>) cfg0
       (moduleName auth) (sourceFile auth) vi
       (start_state ()\<lparr>trace := trace (start_state ()) @ [begin_log auth vi]\<rparr>)
   = Some (Inr ([(''login.title'', JStr ''Hi {x}'')], [(''login.title'', JStr ''Hola'')],
             ''translations/input/ts/auth/vi/u1.jsonl'', ''translations/output/ts/auth/vi/''),
       \<lparr>world = (), trace = begin_log auth vi # upto_translation ''vi'' ''vi'', totalPairs = 0, completedPairs = 0\<rparr>)"
  by code_simp

theorem validation_failure_witness:
  "process_pair (stub_env\<lparr>aws_translateText := (\<lambda>str target w. (Inr ''Hola'', w))\<rparr>) cfg0
      ''translations/jobs/ts'' auth vi (start_state ())
   = Some (Inr (),
       \<lparr>world = (),
        trace = begin_log auth vi # upto_translation ''vi'' ''vi'' @
         [Log ''tr_convert_start'' ''unflatten'' (Msg ''Converting flat -> nested'') False,
          Log ''tr_convert_end'' ''unflatten'' (Msg ''Converted nested'') False,
          Log ''tr_validate_start'' ''validate'' (Msg ''Validating'') False,
          Log ''tr_validate_fail'' ''validate'' (Msg ''Validation failed'') False,
          Log ''tr_error'' ''validate_fail''
            (ErrMsg [] (ValidationFailed ''auth'' ''vi'' [PlaceholderMismatch [(''login.title'', [''x''], [])]])) True,
          Log ''tr_error'' ''module_locale_error''
            (ErrMsg [] (ValidationFailed ''auth'' ''vi'' [PlaceholderMismatch [(''login.title'', [''x''], [])]])) True,
          Progress 1 0 0],
        totalPairs = 0, completedPairs = 1\<rparr>)"
proof -
  have u: "unflattenJson [(''login.title'', JStr ''Hola'')] = Inr (JObj [(''login'', JObj [(''title'', JStr ''Hola'')])])"
    by code_simp
  have v: "validateKeyAndPlaceholderParity [(''login.title'', JStr ''Hi {x}'')] [(''login.title'', JStr ''Hola'')]
             = \<lparr>ok = False, errors = [PlaceholderMismatch [(''login.title'', [''x''], [])]]\<rparr>"
    by code_simp
  from validation_failure [of "stub_env\<lparr>aws_translateText := (\<lambda>str target w. (Inr ''Hola'', w))\<rparr>" cfg0 auth vi
      "start_state ()" "[(''login.title'', JStr ''Hi {x}'')]" "[(''login.title'', JStr ''Hola'')]"
      "''translations/input/ts/auth/vi/u1.jsonl''" "''translations/output/ts/auth/vi/''"
      "\<lparr>world = (), trace = begin_log auth vi # upto_translation ''vi'' ''vi'', totalPairs = 0, completedPairs = 0\<rparr>"
      "JObj [(''login'', JObj [(''title'', JStr ''Hola'')])]" "''translations/jobs/ts''"]
    obtain_when_placeholder_lost u v
  show ?thesis
    by (simp add: auth_def vi_def percent_of_def)
qed

text \<open>The whole trace of a pair whose translation loses the placeholder: it ends with the
  critical entry of the validation; no file is written, and neither \<^verbatim>\<open>deleteFile\<close> nor
  \<^verbatim>\<open>listFiles\<close> is called.\<close>

theorem validation_failure_counterexample:
  "translateModuleLocale (stub_env\<lparr>aws_translateText := (\<lambda>str target w. (Inr ''Kumusta'', w))\<rparr>) cfg0
      ''auth'' ''i18n/auth/en.json'' ''translations/jobs/ts'' ph (start_state ())
   = Some (Inl (ValidationFailed ''auth'' ''ph'' [PlaceholderMismatch [(''login.title'', [''x''], [])]]),
       \<lparr>world = (),
        trace = upto_translation ''ph'' ''tl'' @
         [Log ''tr_convert_start'' ''unflatten'' (Msg ''Converting flat -> nested'') False,
          Log ''tr_convert_end'' ''unflatten'' (Msg ''Converted nested'') False,
          Log ''tr_validate_start'' ''validate'' (Msg ''Validating'') False,
          Log ''tr_validate_fail'' ''validate'' (Msg ''Validation failed'') False,
          Log ''tr_error'' ''validate_fail''
            (ErrMsg [] (ValidationFailed ''auth'' ''ph'' [PlaceholderMismatch [(''login.title'', [''x''], [])]])) True],
        totalPairs = 0, completedPairs = 0\<rparr>)"
  by code_simp

lemma cleanup_delete_input_fails:
  "s3_deleteFile sys (bucket cfg) ik (world s) = (Inl e, w) \<Longrightarrow>
   cleanup sys cfg ik op s = Some (Inl e, s\<lparr>world := w, trace := trace s @ [DeleteFile (bucket cfg) ik]\<rparr>)"
  by (simp add: cleanup_def pbind_def call_def)

lemma cleanup_list_fails:
  "s3_deleteFile sys (bucket cfg) ik (world s) = (Inr (), w) \<Longrightarrow>
   s3_listFiles sys (bucket cfg) op w = (Inl e, w') \<Longrightarrow>
   cleanup sys cfg ik op s = Some (Inl e, s\<lparr>world := w', trace := trace s @
      [DeleteFile (bucket cfg) ik, ListFiles (bucket cfg) op]\<rparr>)"
  by (simp add: cleanup_def pbind_def call_def)

lemma cleanup_delete_outputs_fails:
  "s3_deleteFile sys (bucket cfg) ik (world s) = (Inr (), w) \<Longrightarrow>
   s3_listFiles sys (bucket cfg) op w = (Inr files, w') \<Longrightarrow> files \<noteq> [] \<Longrightarrow>
   s3_deleteFiles sys (bucket cfg) files w' = (Inl e, w'') \<Longrightarrow>
   cleanup sys cfg ik op s = Some (Inl e, s\<lparr>world := w'', trace := trace s @
      [DeleteFile (bucket cfg) ik, ListFiles (bucket cfg) op, DeleteFiles (bucket cfg) files]\<rparr>)"
  by (simp add: cleanup_def pbind_def call_def)

text \<open>
  C5, as the code has it. The cleanup has no handler of its own: when \<^verbatim>\<open>deleteFile\<close>,
  \<^verbatim>\<open>listFiles\<close> or \<^verbatim>\<open>deleteFiles\<close> fails it raises that error, after the calls made so
  far. \<^verbatim>\<open>translateModuleLocale\<close> raises it in turn, although the file has been written, and
  the loop of the run catches it: the pair is logged as critical with the error of the
  cleanup, counted and reported, and the run goes on.
\<close>

theorem cleanup_failure:
  "(obtain_translation sys cfg (moduleName m) (sourceFile m) target (s\<lparr>trace := trace s @ [begin_log m target]\<rparr>)
      = Some (Inr (flatSource, translatedFlat, inputKey, outputPrefix), s1)
   \<and> unflattenJson translatedFlat = Inr nested
   \<and> ok (validateKeyAndPlaceholderParity flatSource translatedFlat)
   \<and> fs_writeJsonPretty sys (localOut sys jobDir (moduleName m) (folderCode target)) nested (world s1) = (Inr (), w2)
   \<and> cleanup sys cfg inputKey outputPrefix
     (s1\<lparr>world := w2, trace := trace s1 @
         [Log ''tr_convert_start'' ''unflatten'' (Msg ''Converting flat -> nested'') False,
          Log ''tr_convert_end'' ''unflatten'' (Msg ''Converted nested'') False,
          Log ''tr_validate_start'' ''validate'' (Msg ''Validating'') False,
          Log ''tr_validate_pass'' ''validate'' (Msg ''Validation passed'') False,
          Log ''tr_write_start'' ''write_file''
            (Msg (''Writing '' @ localOut sys jobDir (moduleName m) (folderCode target))) False,
          WriteJsonPretty (localOut sys jobDir (moduleName m) (folderCode target)) nested,
          Log ''tr_write_end'' ''write_file'' (Msg ''File written'') False,
          Log ''tr_cleanup_start'' ''s3_cleanup'' (Msg ''Cleaning up S3 input & output'') False]\<rparr>)
     = Some (Inl e, s3)
   \<longrightarrow> process_pair sys cfg jobDir m target s =
     Some (Inr (), s3\<lparr>completedPairs := completedPairs s3 + 1, trace := trace s3 @
         [Log ''tr_error'' ''module_locale_error'' (ErrMsg [] e) True,
          Progress (completedPairs s3 + 1) (totalPairs s3) (percent_of (completedPairs s3 + 1) (totalPairs s3))]\<rparr>))
   \<and> (s3_deleteFile sys (bucket cfg) inputKey (world s) = (Inl e, w) \<longrightarrow>
        cleanup sys cfg inputKey outputPrefix s =
          Some (Inl e, s\<lparr>world := w, trace := trace s @ [DeleteFile (bucket cfg) inputKey]\<rparr>))
   \<and> (s3_deleteFile sys (bucket cfg) inputKey (world s) = (Inr (), w)
        \<and> s3_listFiles sys (bucket cfg) outputPrefix w = (Inl e, w') \<longrightarrow>
        cleanup sys cfg inputKey outputPrefix s =
          Some (Inl e, s\<lparr>world := w', trace := trace s @
            [DeleteFile (bucket cfg) inputKey, ListFiles (bucket cfg) outputPrefix]\<rparr>))
   \<and> (s3_deleteFile sys (bucket cfg) inputKey (world s) = (Inr (), w)
        \<and> s3_listFiles sys (bucket cfg) outputPrefix w = (Inr files, w') \<and> files \<noteq> []
        \<and> s3_deleteFiles sys (bucket cfg) files w' = (Inl e, w'') \<longrightarrow>
        cleanup sys cfg inputKey outputPrefix s =
          Some (Inl e, s\<lparr>world := w'', trace := trace s @
            [DeleteFile (bucket cfg) inputKey, ListFiles (bucket cfg) outputPrefix,
             DeleteFiles (bucket cfg) files]\<rparr>))"
proof (intro conjI impI; (elim conjE)?)
  assume o: "obtain_translation sys cfg (moduleName m) (sourceFile m) target (s\<lparr>trace := trace s @ [begin_log m target]\<rparr>)
      = Some (Inr (flatSource, translatedFlat, inputKey, outputPrefix), s1)"
    and u: "unflattenJson translatedFlat = Inr nested"
    and v: "ok (validateKeyAndPlaceholderParity flatSource translatedFlat)"
    and w: "fs_writeJsonPretty sys (localOut sys jobDir (moduleName m) (folderCode target)) nested (world s1) = (Inr (), w2)"
    and c: "cleanup sys cfg inputKey outputPrefix
     (s1\<lparr>world := w2, trace := trace s1 @
         [Log ''tr_convert_start'' ''unflatten'' (Msg ''Converting flat -> nested'') False,
          Log ''tr_convert_end'' ''unflatten'' (Msg ''Converted nested'') False,
          Log ''tr_validate_start'' ''validate'' (Msg ''Validating'') False,
          Log ''tr_validate_pass'' ''validate'' (Msg ''Validation passed'') False,
          Log ''tr_write_start'' ''write_file''
            (Msg (''Writing '' @ localOut sys jobDir (moduleName m) (folderCode target))) False,
          WriteJsonPretty (localOut sys jobDir (moduleName m) (folderCode target)) nested,
          Log ''tr_write_end'' ''write_file'' (Msg ''File written'') False,
          Log ''tr_cleanup_start'' ''s3_cleanup'' (Msg ''Cleaning up S3 input & output'') False]\<rparr>)
     = Some (Inl e, s3)"
  from translateModuleLocale_deliver [OF o, of jobDir] deliver_cleanup_fails [OF u v w c]
  have "translateModuleLocale sys cfg (moduleName m) (sourceFile m) jobDir target (s\<lparr>trace := trace s @ [begin_log m target]\<rparr>)
    = Some (Inl e, s3)"
    by simp
  from process_pair_run [OF this] show "process_pair sys cfg jobDir m target s =
     Some (Inr (), s3\<lparr>completedPairs := completedPairs s3 + 1, trace := trace s3 @
         [Log ''tr_error'' ''module_locale_error'' (ErrMsg [] e) True,
          Progress (completedPairs s3 + 1) (totalPairs s3) (percent_of (completedPairs s3 + 1) (totalPairs s3))]\<rparr>)"
    by simp
next
  assume "s3_deleteFile sys (bucket cfg) inputKey (world s) = (Inl e, w)"
  then show "cleanup sys cfg inputKey outputPrefix s =
          Some (Inl e, s\<lparr>world := w, trace := trace s @ [DeleteFile (bucket cfg) inputKey]\<rparr>)"
    by (rule cleanup_delete_input_fails)
next
  assume "s3_deleteFile sys (bucket cfg) inputKey (world s) = (Inr (), w)"
    "s3_listFiles sys (bucket cfg) outputPrefix w = (Inl e, w')"
  then show "cleanup sys cfg inputKey outputPrefix s =
          Some (Inl e, s\<lparr>world := w', trace := trace s @
            [DeleteFile (bucket cfg) inputKey, ListFiles (bucket cfg) outputPrefix]\<rparr>)"
    by (rule cleanup_list_fails)
next
  assume "s3_deleteFile sys (bucket cfg) inputKey (world s) = (Inr (), w)"
    "s3_listFiles sys (bucket cfg) outputPrefix w = (Inr files, w')" "files \<noteq> []"
    "s3_deleteFiles sys (bucket cfg) files w' = (Inl e, w'')"
  then show "cleanup sys cfg inputKey outputPrefix s =
          Some (Inl e, s\<lparr>world := w'', trace := trace s @
            [DeleteFile (bucket cfg) inputKey, ListFiles (bucket cfg) outputPrefix,
             DeleteFiles (bucket cfg) files]\<rparr>)"
    by (rule cleanup_delete_outputs_fails)
qed

theorem cleanup_failure_witness:
  "process_pair (stub_env\<lparr>s3_deleteFile := (\<lambda>b key w. (Inl (Error ''AccessDenied''), w))\<rparr>) cfg0
      ''translations/jobs/ts'' auth vi (start_state ())
   = Some (Inr (),
       \<lparr>world = (),
        trace = begin_log auth vi # upto_translation ''vi'' ''vi''
          @ delivered ''vi'' (JObj [(''login'', JObj [(''title'', JStr ''Hi {x}'')])])
          @ [DeleteFile ''bkt'' ''translations/input/ts/auth/vi/u1.jsonl'',
             Log ''tr_error'' ''module_locale_error'' (ErrMsg [] (Error ''AccessDenied'')) True,
             Progress 1 0 0],
        totalPairs = 0, completedPairs = 1\<rparr>)"
proof -
  let ?E = "stub_env\<lparr>s3_deleteFile := (\<lambda>b key w. (Inl (Error ''AccessDenied''), w))\<rparr> :: unit env"
  let ?S1 = "\<lparr>world = (), trace = begin_log auth vi # upto_translation ''vi'' ''vi'', totalPairs = 0, completedPairs = 0\<rparr>"
  let ?N = "JObj [(''login'', JObj [(''title'', JStr ''Hi {x}'')])]"
  let ?S3 = "\<lparr>world = (), trace = begin_log auth vi # upto_translation ''vi'' ''vi'' @ delivered ''vi'' ?N
                @ [DeleteFile ''bkt'' ''translations/input/ts/auth/vi/u1.jsonl''], totalPairs = 0, completedPairs = 0\<rparr>"
  have h: "obtain_translation ?E cfg0 (moduleName auth) (sourceFile auth) vi
             (start_state ()\<lparr>trace := trace (start_state ()) @ [begin_log auth vi]\<rparr>)
      = Some (Inr ([(''login.title'', JStr ''Hi {x}'')], [(''login.title'', JStr ''Hi {x}'')],
             ''translations/input/ts/auth/vi/u1.jsonl'', ''translations/output/ts/auth/vi/''), ?S1)
   \<and> unflattenJson [(''login.title'', JStr ''Hi {x}'')] = Inr ?N
   \<and> ok (validateKeyAndPlaceholderParity [(''login.title'', JStr ''Hi {x}'')] [(''login.title'', JStr ''Hi {x}'')])
   \<and> fs_writeJsonPretty ?E (localOut ?E ''translations/jobs/ts'' (moduleName auth) (folderCode vi)) ?N (world ?S1) = (Inr (), ())
   \<and> cleanup ?E cfg0 ''translations/input/ts/auth/vi/u1.jsonl'' ''translations/output/ts/auth/vi/''
     (?S1\<lparr>world := (), trace := trace ?S1 @
         [Log ''tr_convert_start'' ''unflatten'' (Msg ''Converting flat -> nested'') False,
          Log ''tr_convert_end'' ''unflatten'' (Msg ''Converted nested'') False,
          Log ''tr_validate_start'' ''validate'' (Msg ''Validating'') False,
          Log ''tr_validate_pass'' ''validate'' (Msg ''Validation passed'') False,
          Log ''tr_write_start'' ''write_file''
            (Msg (''Writing '' @ localOut ?E ''translations/jobs/ts'' (moduleName auth) (folderCode vi))) False,
          WriteJsonPretty (localOut ?E ''translations/jobs/ts'' (moduleName auth) (folderCode vi)) ?N,
          Log ''tr_write_end'' ''write_file'' (Msg ''File written'') False,
          Log ''tr_cleanup_start'' ''s3_cleanup'' (Msg ''Cleaning up S3 input & output'') False]\<rparr>)
     = Some (Inl (Error ''AccessDenied''), ?S3)"
    by code_simp
  from cleanup_failure [of ?E cfg0 auth vi "start_state ()" _ _ _ _ ?S1 ?N "''translations/jobs/ts''" "()" "Error ''AccessDenied''" ?S3,
      THEN conjunct1, THEN mp, OF h]
  show ?thesis
    by (simp add: percent_of_def)
qed

text \<open>A pair whose translation is valid and whose file is written, and whose cleanup cannot
  list the output prefix: the call for the pair raises the error of \<^verbatim>\<open>listFiles\<close>.\<close>

theorem cleanup_failure_counterexample:
  "translateModuleLocale (stub_env\<lparr>s3_listFiles := (\<lambda>b prefix w. (Inl (Error ''SlowDown''), w))\<rparr>) cfg0
      ''auth'' ''i18n/auth/en.json'' ''translations/jobs/ts'' ph (start_state ())
   = Some (Inl (Error ''SlowDown''),
       \<lparr>world = (),
        trace = upto_translation ''ph'' ''tl''
          @ delivered ''ph'' (JObj [(''login'', JObj [(''title'', JStr ''Hi {x}'')])])
          @ [DeleteFile ''bkt'' ''translations/input/ts/auth/ph/u1.jsonl'',
             ListFiles ''bkt'' ''translations/output/ts/auth/ph/''],
        totalPairs = 0, completedPairs = 0\<rparr>)"
  by code_simp

subsection \<open>The batch attempt and the per-string translation\<close>











end
